theory Spec2Isabelle
  imports Main "HOL-Library.FSet" "HOL-Library.Char_ord" "HOL-Library.List_Lexorder"
begin

section \<open>Go values shared by the resource handlers\<close>

text \<open>
  The handlers of \<^verbatim>\<open>src/nsxt\<close> receive a \<^verbatim>\<open>*schema.ResourceData\<close> (the local
  configuration record \<open>d\<close>) and the API client \<open>m\<close>, and return a Go \<^verbatim>\<open>error\<close>.
  Every API method returns a payload, a \<^verbatim>\<open>*http.Response\<close> and an \<^verbatim>\<open>error\<close>; both
  of the latter may be \<^verbatim>\<open>nil\<close>, so they are options here.  Go's \<^verbatim>\<open>int\<close> and
  \<^verbatim>\<open>int64\<close> values are only copied, never computed with, and are integers here.
\<close>

type_synonym go_error = string

record Response =
  StatusCode :: int

definition StatusCreated :: int where
  "StatusCreated = 201"

definition StatusNotFound :: int where
  "StatusNotFound = 404"

text \<open>
  \<^verbatim>\<open>fmt.Errorf(format, args...)\<close> is kept symbolic: the format string and the
  arguments it is applied to.  What a handler returns is \<^verbatim>\<open>nil\<close>, such an error, or
  nothing at all, when it reads \<^verbatim>\<open>resp.StatusCode\<close> through a \<^verbatim>\<open>nil\<close> response and the
  Go runtime panics.
\<close>

datatype fmt_arg =
    ErrArg "go_error option"
  | IntArg int
  | StrArg string
  | RespArg "Response option"

datatype handler_result =
    ReturnNil
  | ReturnErrorf string "fmt_arg list"
  | NilPointerPanic

fun is_error :: "handler_result \<Rightarrow> bool" where
  "is_error (ReturnErrorf f args) = True"
| "is_error ReturnNil = False"
| "is_error NilPointerPanic = False"

text \<open>An error "with context": the format of the message is followed by the error of
  the API call.\<close>

fun error_with_context :: "go_error \<Rightarrow> handler_result \<Rightarrow> bool" where
  "error_with_context e (ReturnErrorf f args) = (f \<noteq> [] \<and> ErrArg (Some e) \<in> set args)"
| "error_with_context e ReturnNil = False"
| "error_with_context e NilPointerPanic = False"

section \<open>The structs of the API client\<close>

text \<open>
  The structs of the vendored packages \<^verbatim>\<open>manager\<close> and \<^verbatim>\<open>common\<close>, with the fields
  that the handlers read or write.  A field that a Go struct literal leaves out has its
  zero value.
\<close>

record Tag =
  Tag_Scope :: string
  Tag_Tag :: string

record ResourceReference =
  Ref_IsValid :: bool
  Ref_TargetDisplayName :: string
  Ref_TargetId :: string
  Ref_TargetType :: string

record NsService =
  NsService_Id :: string
  NsService_Revision :: int
  NsService_SystemOwned :: bool
  NsService_Description :: string
  NsService_DisplayName :: string
  NsService_Tags :: "Tag list"
  NsService_DefaultService :: bool

record L4PortSetNsServiceEntry =
  Entry_ResourceType :: string
  Entry_L4Protocol :: string
  Entry_DestinationPorts :: "string list"
  Entry_SourcePorts :: "string list"

record L4PortSetNsService =
  L4_NsService :: NsService
  L4_NsserviceElement :: L4PortSetNsServiceEntry

record NatRule =
  NatRule_Id :: string
  NatRule_Revision :: int
  NatRule_Description :: string
  NatRule_DisplayName :: string
  NatRule_Tags :: "Tag list"
  NatRule_Action :: string
  NatRule_Enabled :: bool
  NatRule_Logging :: bool
  NatRule_LogicalRouterId :: string
  NatRule_MatchDestinationNetwork :: string
  NatRule_MatchSourceNetwork :: string
  NatRule_NatPass :: bool
  NatRule_RulePriority :: int
  NatRule_TranslatedNetwork :: string
  NatRule_TranslatedPorts :: string

record FirewallService =
  Service_IsValid :: bool
  Service_TargetDisplayName :: string
  Service_TargetId :: string
  Service_TargetType :: string

record FirewallRule =
  Rule_Id :: string
  Rule_Revision :: int
  Rule_DisplayName :: string
  Rule_RuleTag :: string
  Rule_Notes :: string
  Rule_Description :: string
  Rule_Action :: string
  Rule_Logged :: bool
  Rule_Disabled :: bool
  Rule_SourcesExcluded :: bool
  Rule_DestinationsExcluded :: bool
  Rule_IpProtocol :: string
  Rule_Direction :: string
  Rule_Sources :: "ResourceReference list"
  Rule_Destinations :: "ResourceReference list"
  Rule_Services :: "FirewallService list"

record FirewallSection =
  Section_Id :: string
  Section_Revision :: int
  Section_Description :: string
  Section_DisplayName :: string
  Section_Tags :: "Tag list"
  Section_AppliedTos :: "ResourceReference list"
  Section_IsDefault :: bool
  Section_SectionType :: string
  Section_Stateful :: bool

record FirewallSectionRuleList =
  SectionRL_Id :: string
  SectionRL_Revision :: int
  SectionRL_Description :: string
  SectionRL_DisplayName :: string
  SectionRL_Tags :: "Tag list"
  SectionRL_AppliedTos :: "ResourceReference list"
  SectionRL_IsDefault :: bool
  SectionRL_SectionType :: string
  SectionRL_Stateful :: bool
  SectionRL_Rules :: "FirewallRule list"

section \<open>The API client\<close>

text \<open>
  The generated client (\<^verbatim>\<open>nsxClient.GroupingObjectsApi\<close>,
  \<^verbatim>\<open>nsxClient.LogicalRoutingAndServicesApi\<close>, \<^verbatim>\<open>nsxClient.ServicesApi\<close>) and the server
  behind it are a parameter of every handler: a record of the sixteen methods the
  handlers call.  Each method takes its arguments and the state \<open>'s\<close> of the remote
  side, and returns the Go result tuple with the state after the call.  The
  \<^verbatim>\<open>localVarOptionals\<close> map is an association list.
\<close>

type_synonym optionals = "(string \<times> bool) list"

type_synonym ('a, 's) api_result = "('a \<times> Response option \<times> go_error option) \<times> 's"

record 's APIClient =
  CreateL4PortSetNSService :: "L4PortSetNsService \<Rightarrow> 's \<Rightarrow> (L4PortSetNsService, 's) api_result"
  ReadL4PortSetNSService :: "string \<Rightarrow> 's \<Rightarrow> (L4PortSetNsService, 's) api_result"
  UpdateL4PortSetNSService :: "string \<Rightarrow> L4PortSetNsService \<Rightarrow> 's \<Rightarrow> (L4PortSetNsService, 's) api_result"
  DeleteNSService :: "string \<Rightarrow> optionals \<Rightarrow> 's \<Rightarrow> (unit, 's) api_result"
  AddNatRule :: "string \<Rightarrow> NatRule \<Rightarrow> 's \<Rightarrow> (NatRule, 's) api_result"
  GetNatRule :: "string \<Rightarrow> string \<Rightarrow> 's \<Rightarrow> (NatRule, 's) api_result"
  UpdateNatRule :: "string \<Rightarrow> string \<Rightarrow> NatRule \<Rightarrow> 's \<Rightarrow> (NatRule, 's) api_result"
  DeleteNatRule :: "string \<Rightarrow> string \<Rightarrow> 's \<Rightarrow> (unit, 's) api_result"
  AddSection :: "FirewallSection \<Rightarrow> optionals \<Rightarrow> 's \<Rightarrow> (FirewallSection, 's) api_result"
  AddSectionWithRulesCreateWithRules ::
    "FirewallSectionRuleList \<Rightarrow> optionals \<Rightarrow> 's \<Rightarrow> (FirewallSectionRuleList, 's) api_result"
  GetSectionWithRulesListWithRules :: "string \<Rightarrow> 's \<Rightarrow> (FirewallSectionRuleList, 's) api_result"
  GetSection :: "string \<Rightarrow> 's \<Rightarrow> (FirewallSection, 's) api_result"
  UpdateSection :: "string \<Rightarrow> FirewallSection \<Rightarrow> 's \<Rightarrow> (FirewallSection, 's) api_result"
  UpdateSectionWithRulesUpdateWithRules ::
    "string \<Rightarrow> FirewallSectionRuleList \<Rightarrow> 's \<Rightarrow> (FirewallSectionRuleList, 's) api_result"
  DeleteRule :: "string \<Rightarrow> string \<Rightarrow> 's \<Rightarrow> (unit, 's) api_result"
  DeleteSection :: "string \<Rightarrow> optionals \<Rightarrow> 's \<Rightarrow> (unit, 's) api_result"

section \<open>resource\_l4\_port\_set\_ns\_service.go\<close>

text \<open>
  The local record of an L4 port set service: the identifier of
  \<^verbatim>\<open>d.Id()\<close>/\<^verbatim>\<open>d.SetId\<close> and one field for each key of the resource's \<^verbatim>\<open>Schema\<close>.
  The two port fields are of \<^verbatim>\<open>schema.TypeSet\<close>.
\<close>

record L4PortSetNsServiceData =
  l4_Id :: string
  l4_revision :: int
  l4_system_owned :: bool
  l4_description :: string
  l4_display_name :: string
  l4_tags :: "Tag list"
  l4_default_service :: bool
  l4_destination_ports :: "string fset"
  l4_source_ports :: "string fset"
  l4_l4_protocol :: string

text \<open>
  \<^verbatim>\<open>Interface2StringList(d.Get(key).(*schema.Set).List())\<close>: the elements of the set as a
  list.  The SDK lists them in the order of their hash codes; the lexicographic order
  stands for it here, nothing below depends on which order it is.  \<^verbatim>\<open>d.Set(key, list)\<close>
  on a field of \<^verbatim>\<open>schema.TypeSet\<close> stores the set of the list's elements.
\<close>

definition Interface2StringList :: "string fset \<Rightarrow> string list" where
  "Interface2StringList S = sorted_list_of_fset S"

text \<open>
  Modelled from the spec: \<^verbatim>\<open>GetTagsFromSchema\<close> and \<^verbatim>\<open>SetTagsInSchema\<close> (and their later
  spellings \<^verbatim>\<open>getTagsFromSchema\<close>, \<^verbatim>\<open>setTagsInSchema\<close>) are helpers of the package that
  the sources at hand do not include.  By the spec a handler reads typed fields out of
  the configuration record and writes the response back into it, the record mirroring
  the remote object one-to-one: the tags field holds the list of tags itself.
\<close>

definition GetTagsFromSchema :: "L4PortSetNsServiceData \<Rightarrow> Tag list" where
  "GetTagsFromSchema d = l4_tags d"

definition SetTagsInSchema :: "L4PortSetNsServiceData \<Rightarrow> Tag list \<Rightarrow> L4PortSetNsServiceData" where
  "SetTagsInSchema d tags = d\<lparr>l4_tags := tags\<rparr>"

text \<open>
  \<^verbatim>\<open>resourceL4PortSetNsServiceRead\<close>.  The status of the response is read before the
  error is looked at.  \<^verbatim>\<open>d.Set("resource_type", ...)\<close> names a key that the schema does
  not declare: the call fails, its error is dropped, and the record stays as it is.
  The \<^verbatim>\<open>fmt.Printf\<close> lines write to the standard output only.
\<close>

definition resourceL4PortSetNsServiceRead ::
  "'s APIClient \<Rightarrow> L4PortSetNsServiceData \<Rightarrow> 's \<Rightarrow> handler_result \<times> L4PortSetNsServiceData \<times> 's" where
  "resourceL4PortSetNsServiceRead nsxClient d s =
    (let id = l4_Id d in
     if id = '''' then (ReturnErrorf ''Error obtaining logical object id'' [], d, s)
     else
       case ReadL4PortSetNSService nsxClient id s of ((ns_service, resp, err), s') \<Rightarrow>
         (case resp of
            None \<Rightarrow> (NilPointerPanic, d, s')
          | Some r \<Rightarrow>
              if StatusCode r = StatusNotFound then (ReturnNil, d\<lparr>l4_Id := ''''\<rparr>, s')
              else if err \<noteq> None then
                (ReturnErrorf ''Error during NsService read: %v'' [ErrArg err], d, s')
              else
                let nsservice_element = L4_NsserviceElement ns_service;
                    d1 = d\<lparr>l4_revision := NsService_Revision (L4_NsService ns_service)\<rparr>;
                    d2 = d1\<lparr>l4_system_owned := NsService_SystemOwned (L4_NsService ns_service)\<rparr>;
                    d3 = d2\<lparr>l4_description := NsService_Description (L4_NsService ns_service)\<rparr>;
                    d4 = d3\<lparr>l4_display_name := NsService_DisplayName (L4_NsService ns_service)\<rparr>;
                    d5 = SetTagsInSchema d4 (NsService_Tags (L4_NsService ns_service));
                    d6 = d5\<lparr>l4_default_service := NsService_DefaultService (L4_NsService ns_service)\<rparr>;
                    d7 = d6\<lparr>l4_destination_ports :=
                            fset_of_list (Entry_DestinationPorts nsservice_element)\<rparr>;
                    d8 = d7\<lparr>l4_source_ports := fset_of_list (Entry_SourcePorts nsservice_element)\<rparr>
                in (ReturnNil, d8, s')))"

text \<open>
  \<^verbatim>\<open>resourceL4PortSetNsServiceCreate\<close>.  The struct literal does not mention
  \<^verbatim>\<open>Id\<close>, \<^verbatim>\<open>Revision\<close> or \<^verbatim>\<open>SystemOwned\<close>.  On a status other than 201 the handler
  prints a line and returns \<^verbatim>\<open>nil\<close>.
\<close>

definition resourceL4PortSetNsServiceCreate ::
  "'s APIClient \<Rightarrow> L4PortSetNsServiceData \<Rightarrow> 's \<Rightarrow> handler_result \<times> L4PortSetNsServiceData \<times> 's" where
  "resourceL4PortSetNsServiceCreate nsxClient d s =
    (let description = l4_description d;
         display_name = l4_display_name d;
         tags = GetTagsFromSchema d;
         default_service = l4_default_service d;
         l4_protocol = l4_l4_protocol d;
         source_ports = Interface2StringList (l4_source_ports d);
         destination_ports = Interface2StringList (l4_destination_ports d);
         ns_service = \<lparr>
           L4_NsService = \<lparr>
             NsService_Id = '''',
             NsService_Revision = 0,
             NsService_SystemOwned = False,
             NsService_Description = description,
             NsService_DisplayName = display_name,
             NsService_Tags = tags,
             NsService_DefaultService = default_service\<rparr>,
           L4_NsserviceElement = \<lparr>
             Entry_ResourceType = ''L4PortSetNSService'',
             Entry_L4Protocol = l4_protocol,
             Entry_DestinationPorts = destination_ports,
             Entry_SourcePorts = source_ports\<rparr>\<rparr>
     in case CreateL4PortSetNSService nsxClient ns_service s of ((ns_service', resp, err), s') \<Rightarrow>
       if err \<noteq> None then
         (ReturnErrorf ''Error during NsService create: %v'' [ErrArg err], d, s')
       else
         (case resp of
            None \<Rightarrow> (NilPointerPanic, d, s')
          | Some r \<Rightarrow>
              if StatusCode r \<noteq> StatusCreated then (ReturnNil, d, s')
              else resourceL4PortSetNsServiceRead nsxClient
                     (d\<lparr>l4_Id := NsService_Id (L4_NsService ns_service')\<rparr>) s'))"

text \<open>
  \<^verbatim>\<open>resourceL4PortSetNsServiceUpdate\<close>.  Go's \<^verbatim>\<open>||\<close> does not evaluate
  \<^verbatim>\<open>resp.StatusCode\<close> when \<^verbatim>\<open>err != nil\<close>.
\<close>

definition resourceL4PortSetNsServiceUpdate ::
  "'s APIClient \<Rightarrow> L4PortSetNsServiceData \<Rightarrow> 's \<Rightarrow> handler_result \<times> L4PortSetNsServiceData \<times> 's" where
  "resourceL4PortSetNsServiceUpdate nsxClient d s =
    (let id = l4_Id d in
     if id = '''' then (ReturnErrorf ''Error obtaining logical object id'' [], d, s)
     else
       let description = l4_description d;
           display_name = l4_display_name d;
           tags = GetTagsFromSchema d;
           default_service = l4_default_service d;
           l4_protocol = l4_l4_protocol d;
           source_ports = Interface2StringList (l4_source_ports d);
           destination_ports = Interface2StringList (l4_destination_ports d);
           revision = l4_revision d;
           ns_service = \<lparr>
             L4_NsService = \<lparr>
               NsService_Id = '''',
               NsService_Revision = revision,
               NsService_SystemOwned = False,
               NsService_Description = description,
               NsService_DisplayName = display_name,
               NsService_Tags = tags,
               NsService_DefaultService = default_service\<rparr>,
             L4_NsserviceElement = \<lparr>
               Entry_ResourceType = ''L4PortSetNSService'',
               Entry_L4Protocol = l4_protocol,
               Entry_DestinationPorts = destination_ports,
               Entry_SourcePorts = source_ports\<rparr>\<rparr>
       in case UpdateL4PortSetNSService nsxClient id ns_service s of
            ((ns_service', resp, err), s') \<Rightarrow>
              if err \<noteq> None then
                (ReturnErrorf ''Error during NsService update: %v %v'' [ErrArg err, RespArg resp], d, s')
              else
                (case resp of
                   None \<Rightarrow> (NilPointerPanic, d, s')
                 | Some r \<Rightarrow>
                     if StatusCode r = StatusNotFound then
                       (ReturnErrorf ''Error during NsService update: %v %v''
                          [ErrArg err, RespArg resp], d, s')
                     else resourceL4PortSetNsServiceRead nsxClient d s'))"

text \<open>\<^verbatim>\<open>resourceL4PortSetNsServiceDelete\<close>, with an empty \<^verbatim>\<open>localVarOptionals\<close>.\<close>

definition resourceL4PortSetNsServiceDelete ::
  "'s APIClient \<Rightarrow> L4PortSetNsServiceData \<Rightarrow> 's \<Rightarrow> handler_result \<times> L4PortSetNsServiceData \<times> 's" where
  "resourceL4PortSetNsServiceDelete nsxClient d s =
    (let id = l4_Id d in
     if id = '''' then (ReturnErrorf ''Error obtaining logical object id'' [], d, s)
     else
       let localVarOptionals = [] in
       case DeleteNSService nsxClient id localVarOptionals s of ((u, resp, err), s') \<Rightarrow>
         if err \<noteq> None then
           (ReturnErrorf ''Error during NsService delete: %v'' [ErrArg err], d, s')
         else
           (case resp of
              None \<Rightarrow> (NilPointerPanic, d, s')
            | Some r \<Rightarrow>
                if StatusCode r = StatusNotFound then (ReturnNil, d\<lparr>l4_Id := ''''\<rparr>, s')
                else (ReturnNil, d, s')))"

section \<open>resource\_nsxt\_nat\_rule.go\<close>

text \<open>The local record of a NAT rule: \<^verbatim>\<open>d.Id()\<close> and the keys of the \<^verbatim>\<open>Schema\<close>.\<close>

record NatRuleData =
  nat_Id :: string
  nat_revision :: int
  nat_description :: string
  nat_display_name :: string
  nat_tag :: "Tag list"
  nat_action :: string
  nat_enabled :: bool
  nat_logging :: bool
  nat_logical_router_id :: string
  nat_match_destination_network :: string
  nat_match_source_network :: string
  nat_nat_pass :: bool
  nat_rule_priority :: int
  nat_translated_network :: string
  nat_translated_ports :: string

text \<open>
  Modelled from the spec: \<^verbatim>\<open>getTagsFromSchema\<close> and \<^verbatim>\<open>setTagsInSchema\<close> on the record
  of a NAT rule, helpers that the sources at hand do not include; as for the L4 port set
  service, the \<^verbatim>\<open>tag\<close> field holds the list of tags itself.
\<close>

definition getTagsFromSchema_nat :: "NatRuleData \<Rightarrow> Tag list" where
  "getTagsFromSchema_nat d = nat_tag d"

definition setTagsInSchema_nat :: "NatRuleData \<Rightarrow> Tag list \<Rightarrow> NatRuleData" where
  "setTagsInSchema_nat d tags = d\<lparr>nat_tag := tags\<rparr>"

text \<open>\<^verbatim>\<open>resourceNsxtNatRuleRead\<close>: the status is read before the error is looked at.\<close>

definition resourceNsxtNatRuleRead ::
  "'s APIClient \<Rightarrow> NatRuleData \<Rightarrow> 's \<Rightarrow> handler_result \<times> NatRuleData \<times> 's" where
  "resourceNsxtNatRuleRead nsxClient d s =
    (let id = nat_Id d in
     if id = '''' then (ReturnErrorf ''Error obtaining logical object id'' [], d, s)
     else
       let logicalRouterID = nat_logical_router_id d in
       if logicalRouterID = '''' then (ReturnErrorf ''Error obtaining logical object id'' [], d, s)
       else
         case GetNatRule nsxClient logicalRouterID id s of ((natRule, resp, err), s') \<Rightarrow>
           (case resp of
              None \<Rightarrow> (NilPointerPanic, d, s')
            | Some r \<Rightarrow>
                if StatusCode r = StatusNotFound then (ReturnNil, d\<lparr>nat_Id := ''''\<rparr>, s')
                else if err \<noteq> None then
                  (ReturnErrorf ''Error during NatRule read: %v'' [ErrArg err], d, s')
                else
                  let d1 = d\<lparr>nat_revision := NatRule_Revision natRule\<rparr>;
                      d2 = d1\<lparr>nat_description := NatRule_Description natRule\<rparr>;
                      d3 = d2\<lparr>nat_display_name := NatRule_DisplayName natRule\<rparr>;
                      d4 = setTagsInSchema_nat d3 (NatRule_Tags natRule);
                      d5 = d4\<lparr>nat_action := NatRule_Action natRule\<rparr>;
                      d6 = d5\<lparr>nat_enabled := NatRule_Enabled natRule\<rparr>;
                      d7 = d6\<lparr>nat_logging := NatRule_Logging natRule\<rparr>;
                      d8 = d7\<lparr>nat_logical_router_id := NatRule_LogicalRouterId natRule\<rparr>;
                      d9 = d8\<lparr>nat_match_destination_network :=
                              NatRule_MatchDestinationNetwork natRule\<rparr>;
                      d10 = d9\<lparr>nat_match_source_network := NatRule_MatchSourceNetwork natRule\<rparr>;
                      d11 = d10\<lparr>nat_nat_pass := NatRule_NatPass natRule\<rparr>;
                      d12 = d11\<lparr>nat_rule_priority := NatRule_RulePriority natRule\<rparr>;
                      d13 = d12\<lparr>nat_translated_network := NatRule_TranslatedNetwork natRule\<rparr>;
                      d14 = d13\<lparr>nat_translated_ports := NatRule_TranslatedPorts natRule\<rparr>
                  in (ReturnNil, d14, s')))"

text \<open>\<^verbatim>\<open>resourceNsxtNatRuleCreate\<close>: the struct literal mentions neither \<^verbatim>\<open>Id\<close> nor
  \<^verbatim>\<open>Revision\<close>.\<close>

definition resourceNsxtNatRuleCreate ::
  "'s APIClient \<Rightarrow> NatRuleData \<Rightarrow> 's \<Rightarrow> handler_result \<times> NatRuleData \<times> 's" where
  "resourceNsxtNatRuleCreate nsxClient d s =
    (let logicalRouterID = nat_logical_router_id d in
     if logicalRouterID = '''' then (ReturnErrorf ''Error obtaining logical object id'' [], d, s)
     else
       let description = nat_description d;
           displayName = nat_display_name d;
           tags = getTagsFromSchema_nat d;
           action = nat_action d;
           enabled = nat_enabled d;
           logging = nat_logging d;
           matchDestinationNetwork = nat_match_destination_network d;
           matchSourceNetwork = nat_match_source_network d;
           natPass = nat_nat_pass d;
           rulePriority = nat_rule_priority d;
           translatedNetwork = nat_translated_network d;
           translatedPorts = nat_translated_ports d;
           natRule = \<lparr>
             NatRule_Id = '''',
             NatRule_Revision = 0,
             NatRule_Description = description,
             NatRule_DisplayName = displayName,
             NatRule_Tags = tags,
             NatRule_Action = action,
             NatRule_Enabled = enabled,
             NatRule_Logging = logging,
             NatRule_LogicalRouterId = logicalRouterID,
             NatRule_MatchDestinationNetwork = matchDestinationNetwork,
             NatRule_MatchSourceNetwork = matchSourceNetwork,
             NatRule_NatPass = natPass,
             NatRule_RulePriority = rulePriority,
             NatRule_TranslatedNetwork = translatedNetwork,
             NatRule_TranslatedPorts = translatedPorts\<rparr>
       in case AddNatRule nsxClient logicalRouterID natRule s of ((natRule', resp, err), s') \<Rightarrow>
         if err \<noteq> None then
           (ReturnErrorf ''Error during NatRule create: %v'' [ErrArg err], d, s')
         else
           (case resp of
              None \<Rightarrow> (NilPointerPanic, d, s')
            | Some r \<Rightarrow>
                if StatusCode r \<noteq> StatusCreated then
                  (ReturnErrorf ''Unexpected status returned during NatRule create: %v''
                     [IntArg (StatusCode r)], d, s')
                else resourceNsxtNatRuleRead nsxClient (d\<lparr>nat_Id := NatRule_Id natRule'\<rparr>) s'))"

text \<open>\<^verbatim>\<open>resourceNsxtNatRuleUpdate\<close>.\<close>

definition resourceNsxtNatRuleUpdate ::
  "'s APIClient \<Rightarrow> NatRuleData \<Rightarrow> 's \<Rightarrow> handler_result \<times> NatRuleData \<times> 's" where
  "resourceNsxtNatRuleUpdate nsxClient d s =
    (let id = nat_Id d in
     if id = '''' then (ReturnErrorf ''Error obtaining logical object id'' [], d, s)
     else
       let logicalRouterID = nat_logical_router_id d in
       if logicalRouterID = '''' then (ReturnErrorf ''Error obtaining logical object id'' [], d, s)
       else
         let revision = nat_revision d;
             description = nat_description d;
             displayName = nat_display_name d;
             tags = getTagsFromSchema_nat d;
             action = nat_action d;
             enabled = nat_enabled d;
             logging = nat_logging d;
             matchDestinationNetwork = nat_match_destination_network d;
             matchSourceNetwork = nat_match_source_network d;
             natPass = nat_nat_pass d;
             rulePriority = nat_rule_priority d;
             translatedNetwork = nat_translated_network d;
             translatedPorts = nat_translated_ports d;
             natRule = \<lparr>
               NatRule_Id = '''',
               NatRule_Revision = revision,
               NatRule_Description = description,
               NatRule_DisplayName = displayName,
               NatRule_Tags = tags,
               NatRule_Action = action,
               NatRule_Enabled = enabled,
               NatRule_Logging = logging,
               NatRule_LogicalRouterId = logicalRouterID,
               NatRule_MatchDestinationNetwork = matchDestinationNetwork,
               NatRule_MatchSourceNetwork = matchSourceNetwork,
               NatRule_NatPass = natPass,
               NatRule_RulePriority = rulePriority,
               NatRule_TranslatedNetwork = translatedNetwork,
               NatRule_TranslatedPorts = translatedPorts\<rparr>
         in case UpdateNatRule nsxClient logicalRouterID id natRule s of
              ((natRule', resp, err), s') \<Rightarrow>
                if err \<noteq> None then
                  (ReturnErrorf ''Error during NatRule update: %v'' [ErrArg err], d, s')
                else
                  (case resp of
                     None \<Rightarrow> (NilPointerPanic, d, s')
                   | Some r \<Rightarrow>
                       if StatusCode r = StatusNotFound then
                         (ReturnErrorf ''Error during NatRule update: %v'' [ErrArg err], d, s')
                       else resourceNsxtNatRuleRead nsxClient d s'))"

text \<open>\<^verbatim>\<open>resourceNsxtNatRuleDelete\<close>.\<close>

definition resourceNsxtNatRuleDelete ::
  "'s APIClient \<Rightarrow> NatRuleData \<Rightarrow> 's \<Rightarrow> handler_result \<times> NatRuleData \<times> 's" where
  "resourceNsxtNatRuleDelete nsxClient d s =
    (let id = nat_Id d in
     if id = '''' then (ReturnErrorf ''Error obtaining logical object id'' [], d, s)
     else
       let logicalRouterID = nat_logical_router_id d in
       if logicalRouterID = '''' then (ReturnErrorf ''Error obtaining logical object id'' [], d, s)
       else
         case DeleteNatRule nsxClient logicalRouterID id s of ((u, resp, err), s') \<Rightarrow>
           if err \<noteq> None then
             (ReturnErrorf ''Error during NatRule delete: %v'' [ErrArg err], d, s')
           else
             (case resp of
                None \<Rightarrow> (NilPointerPanic, d, s')
              | Some r \<Rightarrow>
                  if StatusCode r = StatusNotFound then (ReturnNil, d\<lparr>nat_Id := ''''\<rparr>, s')
                  else (ReturnNil, d, s')))"

section \<open>resource\_nsxt\_firewall\_section.go\<close>

text \<open>
  The local record of a firewall section.  An element of its \<^verbatim>\<open>rule\<close> list is a map
  from keys to values, with the keys that \<^verbatim>\<open>getRulesSchema\<close> declares.  An element of
  a rule's \<^verbatim>\<open>service\<close> list is a map with the four keys of
  \<^verbatim>\<open>returnServicesResourceReferences\<close>.
\<close>

record service_elem =
  srv_is_valid :: bool
  srv_target_display_name :: string
  srv_target_id :: string
  srv_target_type :: string

record rule_elem =
  rule_revision :: int
  rule_description :: string
  rule_display_name :: string
  rule_action :: string
  rule_applied_to :: "ResourceReference list"
  rule_destination :: "ResourceReference list"
  rule_destinations_excluded :: bool
  rule_direction :: string
  rule_disabled :: bool
  rule_ip_protocol :: string
  rule_logged :: bool
  rule_notes :: string
  rule_rule_tag :: string
  rule_source :: "ResourceReference list"
  rule_sources_excluded :: bool
  rule_service :: "service_elem list"

text \<open>The map that \<^verbatim>\<open>setRulesInSchema\<close> builds for a rule has the key \<^verbatim>\<open>id\<close> as
  well, which \<^verbatim>\<open>getRulesSchema\<close> does not declare.\<close>

record written_rule = rule_elem +
  written_id :: string

record FirewallSectionData =
  fw_Id :: string
  fw_revision :: int
  fw_description :: string
  fw_display_name :: string
  fw_tag :: "Tag list"
  fw_is_default :: bool
  fw_section_type :: string
  fw_stateful :: bool
  fw_applied_to :: "ResourceReference list"
  fw_rule :: "rule_elem list"

text \<open>
  Modelled from the spec: \<^verbatim>\<open>getTagsFromSchema\<close>, \<^verbatim>\<open>setTagsInSchema\<close>,
  \<^verbatim>\<open>getResourceReferencesFromSchemaSet\<close>, \<^verbatim>\<open>setResourceReferencesInSchema\<close>,
  \<^verbatim>\<open>getResourceReferences\<close> and \<^verbatim>\<open>returnResourceReferences\<close> are helpers of the
  package that the sources at hand do not include.  By the spec the local record
  mirrors the remote object one-to-one: a field of tags or of references holds the
  list of tags or references itself, and the two directions copy it.
\<close>

definition getTagsFromSchema_fw :: "FirewallSectionData \<Rightarrow> Tag list" where
  "getTagsFromSchema_fw d = fw_tag d"

definition setTagsInSchema_fw :: "FirewallSectionData \<Rightarrow> Tag list \<Rightarrow> FirewallSectionData" where
  "setTagsInSchema_fw d tags = d\<lparr>fw_tag := tags\<rparr>"

definition getResourceReferencesFromSchemaSet_applied_to ::
  "FirewallSectionData \<Rightarrow> ResourceReference list" where
  "getResourceReferencesFromSchemaSet_applied_to d = fw_applied_to d"

definition setResourceReferencesInSchema_applied_to ::
  "FirewallSectionData \<Rightarrow> ResourceReference list \<Rightarrow> FirewallSectionData" where
  "setResourceReferencesInSchema_applied_to d references = d\<lparr>fw_applied_to := references\<rparr>"

definition getResourceReferences :: "ResourceReference list \<Rightarrow> ResourceReference list" where
  "getResourceReferences references = references"

definition returnResourceReferences :: "ResourceReference list \<Rightarrow> ResourceReference list" where
  "returnResourceReferences references = references"

text \<open>The loops of the four conversion functions append one element for each element
  they range over.\<close>

definition returnServicesResourceReferences :: "FirewallService list \<Rightarrow> service_elem list" where
  "returnServicesResourceReferences services =
     map (\<lambda>srv. \<lparr>srv_is_valid = Service_IsValid srv,
                 srv_target_display_name = Service_TargetDisplayName srv,
                 srv_target_id = Service_TargetId srv,
                 srv_target_type = Service_TargetType srv\<rparr>) services"

text \<open>
  \<^verbatim>\<open>d.Set("rule", rulesList)\<close>.  \<^verbatim>\<open>d.Set\<close> belongs to the SDK.  As with
  \<^verbatim>\<open>resource_type\<close> in the Read of the L4 port set service, a value for a key that the
  schema does not declare makes the call fail; its error is dropped, and the record
  stays as it is.  Every element that \<^verbatim>\<open>setRulesInSchema\<close> builds has the key \<^verbatim>\<open>id\<close>,
  which \<^verbatim>\<open>getRulesSchema\<close> does not declare: the call stores the list only when it is
  empty.
\<close>

definition Set_rule :: "FirewallSectionData \<Rightarrow> written_rule list \<Rightarrow> FirewallSectionData" where
  "Set_rule d rulesList = (if rulesList = [] then d\<lparr>fw_rule := []\<rparr> else d)"

text \<open>The element that \<^verbatim>\<open>setRulesInSchema\<close> builds has no key \<^verbatim>\<open>applied_to\<close>: that key
  of the element has its zero value.\<close>

definition setRulesInSchema :: "FirewallSectionData \<Rightarrow> FirewallRule list \<Rightarrow> FirewallSectionData" where
  "setRulesInSchema d rules =
     (let rulesList =
        map (\<lambda>rule. \<lparr>rule_revision = Rule_Revision rule,
                     rule_description = Rule_Description rule,
                     rule_display_name = Rule_DisplayName rule,
                     rule_action = Rule_Action rule,
                     rule_applied_to = [],
                     rule_destination = returnResourceReferences (Rule_Destinations rule),
                     rule_destinations_excluded = Rule_DestinationsExcluded rule,
                     rule_direction = Rule_Direction rule,
                     rule_disabled = Rule_Disabled rule,
                     rule_ip_protocol = Rule_IpProtocol rule,
                     rule_logged = Rule_Logged rule,
                     rule_notes = Rule_Notes rule,
                     rule_rule_tag = Rule_RuleTag rule,
                     rule_source = returnResourceReferences (Rule_Sources rule),
                     rule_sources_excluded = Rule_SourcesExcluded rule,
                     rule_service = returnServicesResourceReferences (Rule_Services rule),
                     written_id = Rule_Id rule\<rparr>) rules
      in Set_rule d rulesList)"

definition getServicesResourceReferences :: "service_elem list \<Rightarrow> FirewallService list" where
  "getServicesResourceReferences services =
     map (\<lambda>data. \<lparr>Service_IsValid = srv_is_valid data,
                  Service_TargetDisplayName = srv_target_display_name data,
                  Service_TargetId = srv_target_id data,
                  Service_TargetType = srv_target_type data\<rparr>) services"

text \<open>The struct literal of \<^verbatim>\<open>getRulesFromSchema\<close> mentions no \<^verbatim>\<open>Id\<close>.\<close>

definition getRulesFromSchema :: "FirewallSectionData \<Rightarrow> FirewallRule list" where
  "getRulesFromSchema d =
     (let rules = fw_rule d in
      map (\<lambda>data. \<lparr>Rule_Id = '''',
                   Rule_Revision = rule_revision data,
                   Rule_DisplayName = rule_display_name data,
                   Rule_RuleTag = rule_rule_tag data,
                   Rule_Notes = rule_notes data,
                   Rule_Description = rule_description data,
                   Rule_Action = rule_action data,
                   Rule_Logged = rule_logged data,
                   Rule_Disabled = rule_disabled data,
                   Rule_SourcesExcluded = rule_sources_excluded data,
                   Rule_DestinationsExcluded = rule_destinations_excluded data,
                   Rule_IpProtocol = rule_ip_protocol data,
                   Rule_Direction = rule_direction data,
                   Rule_Sources = getResourceReferences (rule_source data),
                   Rule_Destinations = getResourceReferences (rule_destination data),
                   Rule_Services = getServicesResourceReferences (rule_service data)\<rparr>) rules)"

text \<open>
  \<^verbatim>\<open>resourceNsxtFirewallSectionRead\<close> makes two calls, each followed by the same two
  checks, the status being read before the error is looked at.
\<close>

definition resourceNsxtFirewallSectionRead ::
  "'s APIClient \<Rightarrow> FirewallSectionData \<Rightarrow> 's \<Rightarrow> handler_result \<times> FirewallSectionData \<times> 's" where
  "resourceNsxtFirewallSectionRead nsxClient d s =
    (let id = fw_Id d in
     if id = '''' then (ReturnErrorf ''Error obtaining logical object id'' [], d, s)
     else
       case GetSectionWithRulesListWithRules nsxClient id s of
         ((firewallSection, resp, err), s1) \<Rightarrow>
           (case resp of
              None \<Rightarrow> (NilPointerPanic, d, s1)
            | Some r \<Rightarrow>
                if StatusCode r = StatusNotFound then (ReturnNil, d\<lparr>fw_Id := ''''\<rparr>, s1)
                else if err \<noteq> None then
                  (ReturnErrorf ''Error during FirewallSection %s read: %v''
                     [StrArg id, ErrArg err], d, s1)
                else
                  let d1 = d\<lparr>fw_revision := SectionRL_Revision firewallSection\<rparr>;
                      d2 = d1\<lparr>fw_description := SectionRL_Description firewallSection\<rparr>;
                      d3 = d2\<lparr>fw_display_name := SectionRL_DisplayName firewallSection\<rparr>;
                      d4 = setTagsInSchema_fw d3 (SectionRL_Tags firewallSection);
                      d5 = setRulesInSchema d4 (SectionRL_Rules firewallSection);
                      d6 = d5\<lparr>fw_is_default := SectionRL_IsDefault firewallSection\<rparr>;
                      d7 = d6\<lparr>fw_section_type := SectionRL_SectionType firewallSection\<rparr>;
                      d8 = d7\<lparr>fw_stateful := SectionRL_Stateful firewallSection\<rparr>
                  in case GetSection nsxClient id s1 of
                       ((firewallSection2, resp2, err2), s2) \<Rightarrow>
                         (case resp2 of
                            None \<Rightarrow> (NilPointerPanic, d8, s2)
                          | Some r2 \<Rightarrow>
                              if StatusCode r2 = StatusNotFound then
                                (ReturnNil, d8\<lparr>fw_Id := ''''\<rparr>, s2)
                              else if err2 \<noteq> None then
                                (ReturnErrorf ''Error during FirewallSection %s read: %v''
                                   [StrArg id, ErrArg err2], d8, s2)
                              else
                                (ReturnNil,
                                 setResourceReferencesInSchema_applied_to d8
                                   (Section_AppliedTos firewallSection2), s2))))"

text \<open>\<^verbatim>\<open>resourceNsxtFirewallSectionCreateEmpty\<close>, with an empty \<^verbatim>\<open>localVarOptionals\<close>.\<close>

definition resourceNsxtFirewallSectionCreateEmpty ::
  "'s APIClient \<Rightarrow> FirewallSectionData \<Rightarrow> 's \<Rightarrow> handler_result \<times> FirewallSectionData \<times> 's" where
  "resourceNsxtFirewallSectionCreateEmpty nsxClient d s =
    (let description = fw_description d;
         displayName = fw_display_name d;
         tags = getTagsFromSchema_fw d;
         appliedTos = getResourceReferencesFromSchemaSet_applied_to d;
         isDefault = fw_is_default d;
         sectionType = fw_section_type d;
         stateful = fw_stateful d;
         localVarOptionals = [];
         firewallSection = \<lparr>
           Section_Id = '''',
           Section_Revision = 0,
           Section_Description = description,
           Section_DisplayName = displayName,
           Section_Tags = tags,
           Section_AppliedTos = appliedTos,
           Section_IsDefault = isDefault,
           Section_SectionType = sectionType,
           Section_Stateful = stateful\<rparr>
     in case AddSection nsxClient firewallSection localVarOptionals s of
          ((firewallSection', resp, err), s') \<Rightarrow>
            if err \<noteq> None then
              (ReturnErrorf ''Error during FirewallSection create empty: %v'' [ErrArg err], d, s')
            else
              (case resp of
                 None \<Rightarrow> (NilPointerPanic, d, s')
               | Some r \<Rightarrow>
                   if StatusCode r \<noteq> StatusCreated then
                     (ReturnErrorf
                        ''Unexpected status returned during FirewallSection create empty: %v''
                        [IntArg (StatusCode r)], d, s')
                   else resourceNsxtFirewallSectionRead nsxClient
                          (d\<lparr>fw_Id := Section_Id firewallSection'\<rparr>) s'))"

text \<open>\<^verbatim>\<open>resourceNsxtFirewallSectionCreate\<close>.\<close>

definition resourceNsxtFirewallSectionCreate ::
  "'s APIClient \<Rightarrow> FirewallSectionData \<Rightarrow> 's \<Rightarrow> handler_result \<times> FirewallSectionData \<times> 's" where
  "resourceNsxtFirewallSectionCreate nsxClient d s =
    (let rules = getRulesFromSchema d in
     if length rules = 0 then resourceNsxtFirewallSectionCreateEmpty nsxClient d s
     else
       let description = fw_description d;
           displayName = fw_display_name d;
           tags = getTagsFromSchema_fw d;
           appliedTos = getResourceReferencesFromSchemaSet_applied_to d;
           isDefault = fw_is_default d;
           sectionType = fw_section_type d;
           stateful = fw_stateful d;
           firewallSection = \<lparr>
             SectionRL_Id = '''',
             SectionRL_Revision = 0,
             SectionRL_Description = description,
             SectionRL_DisplayName = displayName,
             SectionRL_Tags = tags,
             SectionRL_AppliedTos = appliedTos,
             SectionRL_IsDefault = isDefault,
             SectionRL_SectionType = sectionType,
             SectionRL_Stateful = stateful,
             SectionRL_Rules = rules\<rparr>;
           localVarOptionals = []
       in case AddSectionWithRulesCreateWithRules nsxClient firewallSection localVarOptionals s of
            ((firewallSection', resp, err), s') \<Rightarrow>
              if err \<noteq> None then
                (ReturnErrorf ''Error during FirewallSection create with rules: %v''
                   [ErrArg err], d, s')
              else
                (case resp of
                   None \<Rightarrow> (NilPointerPanic, d, s')
                 | Some r \<Rightarrow>
                     if StatusCode r \<noteq> StatusCreated then
                       (ReturnErrorf
                          ''Unexpected status returned during FirewallSection create with rules: %v''
                          [IntArg (StatusCode r)], d, s')
                     else resourceNsxtFirewallSectionRead nsxClient
                            (d\<lparr>fw_Id := SectionRL_Id firewallSection'\<rparr>) s'))"

text \<open>
  The loop at the end of \<^verbatim>\<open>resourceNsxtFirewallSectionUpdateEmpty\<close>: one
  \<^verbatim>\<open>DeleteRule\<close> call for each rule of the section that was read, whose three results
  are all dropped.
\<close>

fun deleteCurrentRules :: "'s APIClient \<Rightarrow> string \<Rightarrow> FirewallRule list \<Rightarrow> 's \<Rightarrow> 's" where
  "deleteCurrentRules nsxClient id' [] s = s"
| "deleteCurrentRules nsxClient id' (rule # rules) s =
     deleteCurrentRules nsxClient id' rules (snd (DeleteRule nsxClient id' (Rule_Id rule) s))"

text \<open>\<^verbatim>\<open>resourceNsxtFirewallSectionUpdateEmpty\<close>.\<close>

definition resourceNsxtFirewallSectionUpdateEmpty ::
  "'s APIClient \<Rightarrow> FirewallSectionData \<Rightarrow> string \<Rightarrow> 's \<Rightarrow>
     handler_result \<times> FirewallSectionData \<times> 's" where
  "resourceNsxtFirewallSectionUpdateEmpty nsxClient d id' s =
    (let revision = fw_revision d;
         description = fw_description d;
         displayName = fw_display_name d;
         tags = getTagsFromSchema_fw d;
         appliedTos = getResourceReferencesFromSchemaSet_applied_to d;
         isDefault = fw_is_default d;
         sectionType = fw_section_type d;
         stateful = fw_stateful d;
         firewallSection = \<lparr>
           Section_Id = '''',
           Section_Revision = revision,
           Section_Description = description,
           Section_DisplayName = displayName,
           Section_Tags = tags,
           Section_AppliedTos = appliedTos,
           Section_IsDefault = isDefault,
           Section_SectionType = sectionType,
           Section_Stateful = stateful\<rparr>
     in case UpdateSection nsxClient id' firewallSection s of
          ((firewallSection', resp, err), s1) \<Rightarrow>
            if err \<noteq> None then
              (ReturnErrorf ''Error during FirewallSection %s update empty: %v''
                 [StrArg id', ErrArg err], d, s1)
            else
              (case resp of
                 None \<Rightarrow> (NilPointerPanic, d, s1)
               | Some r \<Rightarrow>
                   if StatusCode r = StatusNotFound then
                     (ReturnErrorf ''Error during FirewallSection %s update empty: %v''
                        [StrArg id', ErrArg err], d, s1)
                   else
                     case GetSectionWithRulesListWithRules nsxClient id' s1 of
                       ((currSection, resp2, err2), s2) \<Rightarrow>
                         (case resp2 of
                            None \<Rightarrow> (NilPointerPanic, d, s2)
                          | Some r2 \<Rightarrow>
                              if StatusCode r2 = StatusNotFound then
                                (ReturnErrorf
                                   ''FirewallSection %s not found during update empty action''
                                   [StrArg id'], d, s2)
                              else if err2 \<noteq> None then
                                (ReturnErrorf
                                   ''Error during FirewallSection %s update empty: cannot read the section: %v''
                                   [StrArg id', ErrArg err2], d, s2)
                              else
                                resourceNsxtFirewallSectionRead nsxClient d
                                  (deleteCurrentRules nsxClient id' (SectionRL_Rules currSection) s2))))"

text \<open>\<^verbatim>\<open>resourceNsxtFirewallSectionUpdate\<close>.\<close>

definition resourceNsxtFirewallSectionUpdate ::
  "'s APIClient \<Rightarrow> FirewallSectionData \<Rightarrow> 's \<Rightarrow> handler_result \<times> FirewallSectionData \<times> 's" where
  "resourceNsxtFirewallSectionUpdate nsxClient d s =
    (let id = fw_Id d in
     if id = '''' then (ReturnErrorf ''Error obtaining logical object id'' [], d, s)
     else
       let rules = getRulesFromSchema d in
       if length rules = 0 then resourceNsxtFirewallSectionUpdateEmpty nsxClient d id s
       else
         let revision = fw_revision d;
             description = fw_description d;
             displayName = fw_display_name d;
             tags = getTagsFromSchema_fw d;
             appliedTos = getResourceReferencesFromSchemaSet_applied_to d;
             isDefault = fw_is_default d;
             sectionType = fw_section_type d;
             stateful = fw_stateful d;
             firewallSection = \<lparr>
               SectionRL_Id = '''',
               SectionRL_Revision = revision,
               SectionRL_Description = description,
               SectionRL_DisplayName = displayName,
               SectionRL_Tags = tags,
               SectionRL_AppliedTos = appliedTos,
               SectionRL_IsDefault = isDefault,
               SectionRL_SectionType = sectionType,
               SectionRL_Stateful = stateful,
               SectionRL_Rules = rules\<rparr>
         in case UpdateSectionWithRulesUpdateWithRules nsxClient id firewallSection s of
              ((firewallSection', resp, err), s') \<Rightarrow>
                if err \<noteq> None then
                  (ReturnErrorf ''Error during FirewallSection %s update: %v''
                     [StrArg id, ErrArg err], d, s')
                else
                  (case resp of
                     None \<Rightarrow> (NilPointerPanic, d, s')
                   | Some r \<Rightarrow>
                       if StatusCode r = StatusNotFound then
                         (ReturnErrorf ''Error during FirewallSection %s update: %v''
                            [StrArg id, ErrArg err], d, s')
                       else resourceNsxtFirewallSectionRead nsxClient d s'))"

text \<open>\<^verbatim>\<open>resourceNsxtFirewallSectionDelete\<close>, with \<^verbatim>\<open>cascade\<close> set in the optionals.\<close>

definition resourceNsxtFirewallSectionDelete ::
  "'s APIClient \<Rightarrow> FirewallSectionData \<Rightarrow> 's \<Rightarrow> handler_result \<times> FirewallSectionData \<times> 's" where
  "resourceNsxtFirewallSectionDelete nsxClient d s =
    (let id = fw_Id d in
     if id = '''' then (ReturnErrorf ''Error obtaining logical object id'' [], d, s)
     else
       let localVarOptionals = [(''cascade'', True)] in
       case DeleteSection nsxClient id localVarOptionals s of ((u, resp, err), s') \<Rightarrow>
         if err \<noteq> None then
           (ReturnErrorf ''Error during FirewallSection %s delete: %v''
              [StrArg id, ErrArg err], d, s')
         else
           (case resp of
              None \<Rightarrow> (NilPointerPanic, d, s')
            | Some r \<Rightarrow>
                if StatusCode r = StatusNotFound then (ReturnNil, d\<lparr>fw_Id := ''''\<rparr>, s')
                else (ReturnNil, d, s')))"

section \<open>Observing the calls of a handler\<close>

text \<open>
  A handler is written once, for any client.  To say which API calls a handler makes, it
  is run with a client that behaves as a given one and also appends each call, with its
  arguments, to a list kept beside the remote state.
\<close>

datatype api_call =
    Call_CreateL4PortSetNSService L4PortSetNsService
  | Call_ReadL4PortSetNSService string
  | Call_UpdateL4PortSetNSService string L4PortSetNsService
  | Call_DeleteNSService string optionals
  | Call_AddNatRule string NatRule
  | Call_GetNatRule string string
  | Call_UpdateNatRule string string NatRule
  | Call_DeleteNatRule string string
  | Call_AddSection FirewallSection optionals
  | Call_AddSectionWithRulesCreateWithRules FirewallSectionRuleList optionals
  | Call_GetSectionWithRulesListWithRules string
  | Call_GetSection string
  | Call_UpdateSection string FirewallSection
  | Call_UpdateSectionWithRulesUpdateWithRules string FirewallSectionRuleList
  | Call_DeleteRule string string
  | Call_DeleteSection string optionals

definition record_call ::
  "api_call \<Rightarrow> ('s \<Rightarrow> ('a, 's) api_result) \<Rightarrow> 's \<times> api_call list \<Rightarrow> ('a, 's \<times> api_call list) api_result" where
  "record_call c f sl = (case f (fst sl) of (res, s') \<Rightarrow> (res, (s', snd sl @ [c])))"

definition logged :: "'s APIClient \<Rightarrow> ('s \<times> api_call list) APIClient" where
  "logged api = \<lparr>
     CreateL4PortSetNSService = (\<lambda>obj.
       record_call (Call_CreateL4PortSetNSService obj) (CreateL4PortSetNSService api obj)),
     ReadL4PortSetNSService = (\<lambda>i.
       record_call (Call_ReadL4PortSetNSService i) (ReadL4PortSetNSService api i)),
     UpdateL4PortSetNSService = (\<lambda>i obj.
       record_call (Call_UpdateL4PortSetNSService i obj) (UpdateL4PortSetNSService api i obj)),
     DeleteNSService = (\<lambda>i opts.
       record_call (Call_DeleteNSService i opts) (DeleteNSService api i opts)),
     AddNatRule = (\<lambda>lr obj.
       record_call (Call_AddNatRule lr obj) (AddNatRule api lr obj)),
     GetNatRule = (\<lambda>lr i.
       record_call (Call_GetNatRule lr i) (GetNatRule api lr i)),
     UpdateNatRule = (\<lambda>lr i obj.
       record_call (Call_UpdateNatRule lr i obj) (UpdateNatRule api lr i obj)),
     DeleteNatRule = (\<lambda>lr i.
       record_call (Call_DeleteNatRule lr i) (DeleteNatRule api lr i)),
     AddSection = (\<lambda>obj opts.
       record_call (Call_AddSection obj opts) (AddSection api obj opts)),
     AddSectionWithRulesCreateWithRules = (\<lambda>obj opts.
       record_call (Call_AddSectionWithRulesCreateWithRules obj opts)
         (AddSectionWithRulesCreateWithRules api obj opts)),
     GetSectionWithRulesListWithRules = (\<lambda>i.
       record_call (Call_GetSectionWithRulesListWithRules i)
         (GetSectionWithRulesListWithRules api i)),
     GetSection = (\<lambda>i.
       record_call (Call_GetSection i) (GetSection api i)),
     UpdateSection = (\<lambda>i obj.
       record_call (Call_UpdateSection i obj) (UpdateSection api i obj)),
     UpdateSectionWithRulesUpdateWithRules = (\<lambda>i obj.
       record_call (Call_UpdateSectionWithRulesUpdateWithRules i obj)
         (UpdateSectionWithRulesUpdateWithRules api i obj)),
     DeleteRule = (\<lambda>i r.
       record_call (Call_DeleteRule i r) (DeleteRule api i r)),
     DeleteSection = (\<lambda>i opts.
       record_call (Call_DeleteSection i opts) (DeleteSection api i opts))\<rparr>"

text \<open>The calls that a handler made, out of what it returned when run from an empty
  list with a \<open>logged\<close> client.\<close>

definition calls_of :: "handler_result \<times> 'd \<times> 's \<times> api_call list \<Rightarrow> api_call list" where
  "calls_of out = snd (snd (snd out))"

definition result_of :: "handler_result \<times> 'd \<times> 's \<Rightarrow> handler_result" where
  "result_of out = fst out"

definition data_of :: "handler_result \<times> 'd \<times> 's \<Rightarrow> 'd" where
  "data_of out = fst (snd out)"

definition remote_of :: "handler_result \<times> 'd \<times> 's \<Rightarrow> 's" where
  "remote_of out = snd (snd out)"

text \<open>What an API call answered: its response, its error, and whether the response has
  a given status.\<close>

definition response_of :: "('a, 's) api_result \<Rightarrow> Response option" where
  "response_of res = fst (snd (fst res))"

definition err_of :: "('a, 's) api_result \<Rightarrow> go_error option" where
  "err_of res = snd (snd (fst res))"

definition payload_of :: "('a, 's) api_result \<Rightarrow> 'a" where
  "payload_of res = fst (fst res)"

definition has_status :: "('a, 's) api_result \<Rightarrow> int \<Rightarrow> bool" where
  "has_status res code =
     (case response_of res of None \<Rightarrow> False | Some r \<Rightarrow> StatusCode r = code)"

section \<open>Two concrete clients\<close>

text \<open>The zero values of the payload structs, which a call that fails returns.\<close>

definition zero_L4PortSetNsService :: L4PortSetNsService where
  "zero_L4PortSetNsService = \<lparr>
     L4_NsService = \<lparr>NsService_Id = '''', NsService_Revision = 0, NsService_SystemOwned = False,
       NsService_Description = '''', NsService_DisplayName = '''', NsService_Tags = [],
       NsService_DefaultService = False\<rparr>,
     L4_NsserviceElement = \<lparr>Entry_ResourceType = '''', Entry_L4Protocol = '''',
       Entry_DestinationPorts = [], Entry_SourcePorts = []\<rparr>\<rparr>"

definition zero_NatRule :: NatRule where
  "zero_NatRule = \<lparr>NatRule_Id = '''', NatRule_Revision = 0, NatRule_Description = '''',
     NatRule_DisplayName = '''', NatRule_Tags = [], NatRule_Action = '''',
     NatRule_Enabled = False, NatRule_Logging = False, NatRule_LogicalRouterId = '''',
     NatRule_MatchDestinationNetwork = '''', NatRule_MatchSourceNetwork = '''',
     NatRule_NatPass = False, NatRule_RulePriority = 0, NatRule_TranslatedNetwork = '''',
     NatRule_TranslatedPorts = ''''\<rparr>"

definition zero_FirewallSection :: FirewallSection where
  "zero_FirewallSection = \<lparr>Section_Id = '''', Section_Revision = 0, Section_Description = '''',
     Section_DisplayName = '''', Section_Tags = [], Section_AppliedTos = [],
     Section_IsDefault = False, Section_SectionType = '''', Section_Stateful = False\<rparr>"

definition zero_FirewallSectionRuleList :: FirewallSectionRuleList where
  "zero_FirewallSectionRuleList = \<lparr>SectionRL_Id = '''', SectionRL_Revision = 0,
     SectionRL_Description = '''', SectionRL_DisplayName = '''', SectionRL_Tags = [],
     SectionRL_AppliedTos = [], SectionRL_IsDefault = False, SectionRL_SectionType = '''',
     SectionRL_Stateful = False, SectionRL_Rules = []\<rparr>"

text \<open>
  A client whose every method answers with the same response and error and a zero
  payload, and has no state: the remote side as a handler sees it when the transport
  fails, or when the server answers each request with one status.
\<close>

definition fixed_reply :: "Response option \<Rightarrow> go_error option \<Rightarrow> unit APIClient" where
  "fixed_reply resp err = \<lparr>
     CreateL4PortSetNSService = (\<lambda>obj s. ((zero_L4PortSetNsService, resp, err), s)),
     ReadL4PortSetNSService = (\<lambda>i s. ((zero_L4PortSetNsService, resp, err), s)),
     UpdateL4PortSetNSService = (\<lambda>i obj s. ((zero_L4PortSetNsService, resp, err), s)),
     DeleteNSService = (\<lambda>i opts s. (((), resp, err), s)),
     AddNatRule = (\<lambda>lr obj s. ((zero_NatRule, resp, err), s)),
     GetNatRule = (\<lambda>lr i s. ((zero_NatRule, resp, err), s)),
     UpdateNatRule = (\<lambda>lr i obj s. ((zero_NatRule, resp, err), s)),
     DeleteNatRule = (\<lambda>lr i s. (((), resp, err), s)),
     AddSection = (\<lambda>obj opts s. ((zero_FirewallSection, resp, err), s)),
     AddSectionWithRulesCreateWithRules = (\<lambda>obj opts s. ((zero_FirewallSectionRuleList, resp, err), s)),
     GetSectionWithRulesListWithRules = (\<lambda>i s. ((zero_FirewallSectionRuleList, resp, err), s)),
     GetSection = (\<lambda>i s. ((zero_FirewallSection, resp, err), s)),
     UpdateSection = (\<lambda>i obj s. ((zero_FirewallSection, resp, err), s)),
     UpdateSectionWithRulesUpdateWithRules = (\<lambda>i obj s. ((zero_FirewallSectionRuleList, resp, err), s)),
     DeleteRule = (\<lambda>i r s. (((), resp, err), s)),
     DeleteSection = (\<lambda>i opts s. (((), resp, err), s))\<rparr>"

text \<open>
  Modelled from the spec: the NSX-T server is not part of the sources.  The claims speak
  of "a server that stores and returns objects exactly as submitted", and the spec of
  objects "created via the remote API (assigning a server-side identifier ...)", read
  back, updated and "deleted by identifier", with the status codes 200, 201 and 404.
  The remote state holds the identifiers still to be handed out and the stored objects
  by identifier.  A request for an identifier that is not stored is answered with 404,
  which the generated client reports with an error as well.
\<close>

record remote =
  fresh_ids :: "string list"
  stored_services :: "(string \<times> L4PortSetNsService) list"
  stored_nat_rules :: "((string \<times> string) \<times> NatRule) list"
  stored_sections :: "(string \<times> FirewallSectionRuleList) list"

definition ok :: Response where
  "ok = \<lparr>StatusCode = 200\<rparr>"

definition created :: Response where
  "created = \<lparr>StatusCode = 201\<rparr>"

definition not_found :: Response where
  "not_found = \<lparr>StatusCode = 404\<rparr>"

definition answer_not_found :: "'a \<Rightarrow> remote \<Rightarrow> ('a, remote) api_result" where
  "answer_not_found zero s = ((zero, Some not_found, Some ''404 Not Found''), s)"

definition answer_no_ids :: "'a \<Rightarrow> remote \<Rightarrow> ('a, remote) api_result" where
  "answer_no_ids zero s =
     ((zero, Some \<lparr>StatusCode = 500\<rparr>, Some ''500 Internal Server Error''), s)"

definition section_of :: "FirewallSectionRuleList \<Rightarrow> FirewallSection" where
  "section_of x = \<lparr>Section_Id = SectionRL_Id x, Section_Revision = SectionRL_Revision x,
     Section_Description = SectionRL_Description x, Section_DisplayName = SectionRL_DisplayName x,
     Section_Tags = SectionRL_Tags x, Section_AppliedTos = SectionRL_AppliedTos x,
     Section_IsDefault = SectionRL_IsDefault x, Section_SectionType = SectionRL_SectionType x,
     Section_Stateful = SectionRL_Stateful x\<rparr>"

definition with_rules :: "FirewallSection \<Rightarrow> FirewallRule list \<Rightarrow> FirewallSectionRuleList" where
  "with_rules x rules = \<lparr>SectionRL_Id = Section_Id x, SectionRL_Revision = Section_Revision x,
     SectionRL_Description = Section_Description x, SectionRL_DisplayName = Section_DisplayName x,
     SectionRL_Tags = Section_Tags x, SectionRL_AppliedTos = Section_AppliedTos x,
     SectionRL_IsDefault = Section_IsDefault x, SectionRL_SectionType = Section_SectionType x,
     SectionRL_Stateful = Section_Stateful x, SectionRL_Rules = rules\<rparr>"

definition put :: "'k \<Rightarrow> 'v \<Rightarrow> ('k \<times> 'v) list \<Rightarrow> ('k \<times> 'v) list" where
  "put k v kvs = (k, v) # filter (\<lambda>kv. fst kv \<noteq> k) kvs"

definition remove :: "'k \<Rightarrow> ('k \<times> 'v) list \<Rightarrow> ('k \<times> 'v) list" where
  "remove k kvs = filter (\<lambda>kv. fst kv \<noteq> k) kvs"

definition store_CreateL4PortSetNSService ::
  "L4PortSetNsService \<Rightarrow> remote \<Rightarrow> (L4PortSetNsService, remote) api_result" where
  "store_CreateL4PortSetNSService obj s =
     (case fresh_ids s of
        [] \<Rightarrow> answer_no_ids zero_L4PortSetNsService s
      | i # ids \<Rightarrow>
          let obj' = obj\<lparr>L4_NsService := (L4_NsService obj)\<lparr>NsService_Id := i\<rparr>\<rparr>
          in ((obj', Some created, None),
              s\<lparr>fresh_ids := ids, stored_services := put i obj' (stored_services s)\<rparr>))"

definition store_ReadL4PortSetNSService ::
  "string \<Rightarrow> remote \<Rightarrow> (L4PortSetNsService, remote) api_result" where
  "store_ReadL4PortSetNSService i s =
     (case map_of (stored_services s) i of
        None \<Rightarrow> answer_not_found zero_L4PortSetNsService s
      | Some obj \<Rightarrow> ((obj, Some ok, None), s))"

definition store_UpdateL4PortSetNSService ::
  "string \<Rightarrow> L4PortSetNsService \<Rightarrow> remote \<Rightarrow> (L4PortSetNsService, remote) api_result" where
  "store_UpdateL4PortSetNSService i obj s =
     (case map_of (stored_services s) i of
        None \<Rightarrow> answer_not_found zero_L4PortSetNsService s
      | Some old \<Rightarrow>
          let obj' = obj\<lparr>L4_NsService := (L4_NsService obj)\<lparr>NsService_Id := i\<rparr>\<rparr>
          in ((obj', Some ok, None), s\<lparr>stored_services := put i obj' (stored_services s)\<rparr>))"

definition store_DeleteNSService :: "string \<Rightarrow> optionals \<Rightarrow> remote \<Rightarrow> (unit, remote) api_result" where
  "store_DeleteNSService i opts s =
     (case map_of (stored_services s) i of
        None \<Rightarrow> answer_not_found () s
      | Some old \<Rightarrow> (((), Some ok, None), s\<lparr>stored_services := remove i (stored_services s)\<rparr>))"

definition store_AddNatRule :: "string \<Rightarrow> NatRule \<Rightarrow> remote \<Rightarrow> (NatRule, remote) api_result" where
  "store_AddNatRule lr obj s =
     (case fresh_ids s of
        [] \<Rightarrow> answer_no_ids zero_NatRule s
      | i # ids \<Rightarrow>
          let obj' = obj\<lparr>NatRule_Id := i\<rparr>
          in ((obj', Some created, None),
              s\<lparr>fresh_ids := ids, stored_nat_rules := put (lr, i) obj' (stored_nat_rules s)\<rparr>))"

definition store_GetNatRule :: "string \<Rightarrow> string \<Rightarrow> remote \<Rightarrow> (NatRule, remote) api_result" where
  "store_GetNatRule lr i s =
     (case map_of (stored_nat_rules s) (lr, i) of
        None \<Rightarrow> answer_not_found zero_NatRule s
      | Some obj \<Rightarrow> ((obj, Some ok, None), s))"

definition store_UpdateNatRule ::
  "string \<Rightarrow> string \<Rightarrow> NatRule \<Rightarrow> remote \<Rightarrow> (NatRule, remote) api_result" where
  "store_UpdateNatRule lr i obj s =
     (case map_of (stored_nat_rules s) (lr, i) of
        None \<Rightarrow> answer_not_found zero_NatRule s
      | Some old \<Rightarrow>
          let obj' = obj\<lparr>NatRule_Id := i\<rparr>
          in ((obj', Some ok, None), s\<lparr>stored_nat_rules := put (lr, i) obj' (stored_nat_rules s)\<rparr>))"

definition store_DeleteNatRule :: "string \<Rightarrow> string \<Rightarrow> remote \<Rightarrow> (unit, remote) api_result" where
  "store_DeleteNatRule lr i s =
     (case map_of (stored_nat_rules s) (lr, i) of
        None \<Rightarrow> answer_not_found () s
      | Some old \<Rightarrow>
          (((), Some ok, None), s\<lparr>stored_nat_rules := remove (lr, i) (stored_nat_rules s)\<rparr>))"

definition store_AddSectionWithRulesCreateWithRules ::
  "FirewallSectionRuleList \<Rightarrow> optionals \<Rightarrow> remote \<Rightarrow> (FirewallSectionRuleList, remote) api_result" where
  "store_AddSectionWithRulesCreateWithRules obj opts s =
     (case fresh_ids s of
        [] \<Rightarrow> answer_no_ids zero_FirewallSectionRuleList s
      | i # ids \<Rightarrow>
          let obj' = obj\<lparr>SectionRL_Id := i\<rparr>
          in ((obj', Some created, None),
              s\<lparr>fresh_ids := ids, stored_sections := put i obj' (stored_sections s)\<rparr>))"

definition store_AddSection ::
  "FirewallSection \<Rightarrow> optionals \<Rightarrow> remote \<Rightarrow> (FirewallSection, remote) api_result" where
  "store_AddSection obj opts s =
     (case store_AddSectionWithRulesCreateWithRules (with_rules obj []) opts s of
        ((obj', resp, err), s') \<Rightarrow> ((section_of obj', resp, err), s'))"

definition store_GetSectionWithRulesListWithRules ::
  "string \<Rightarrow> remote \<Rightarrow> (FirewallSectionRuleList, remote) api_result" where
  "store_GetSectionWithRulesListWithRules i s =
     (case map_of (stored_sections s) i of
        None \<Rightarrow> answer_not_found zero_FirewallSectionRuleList s
      | Some obj \<Rightarrow> ((obj, Some ok, None), s))"

definition store_GetSection :: "string \<Rightarrow> remote \<Rightarrow> (FirewallSection, remote) api_result" where
  "store_GetSection i s =
     (case map_of (stored_sections s) i of
        None \<Rightarrow> answer_not_found zero_FirewallSection s
      | Some obj \<Rightarrow> ((section_of obj, Some ok, None), s))"

definition store_UpdateSectionWithRulesUpdateWithRules ::
  "string \<Rightarrow> FirewallSectionRuleList \<Rightarrow> remote \<Rightarrow> (FirewallSectionRuleList, remote) api_result" where
  "store_UpdateSectionWithRulesUpdateWithRules i obj s =
     (case map_of (stored_sections s) i of
        None \<Rightarrow> answer_not_found zero_FirewallSectionRuleList s
      | Some old \<Rightarrow>
          let obj' = obj\<lparr>SectionRL_Id := i\<rparr>
          in ((obj', Some ok, None), s\<lparr>stored_sections := put i obj' (stored_sections s)\<rparr>))"

text \<open>Updating a section without its rules leaves the rules of the stored section.\<close>

definition store_UpdateSection ::
  "string \<Rightarrow> FirewallSection \<Rightarrow> remote \<Rightarrow> (FirewallSection, remote) api_result" where
  "store_UpdateSection i obj s =
     (case map_of (stored_sections s) i of
        None \<Rightarrow> answer_not_found zero_FirewallSection s
      | Some old \<Rightarrow>
          let obj' = (with_rules obj (SectionRL_Rules old))\<lparr>SectionRL_Id := i\<rparr>
          in ((section_of obj', Some ok, None),
              s\<lparr>stored_sections := put i obj' (stored_sections s)\<rparr>))"

definition store_DeleteRule :: "string \<Rightarrow> string \<Rightarrow> remote \<Rightarrow> (unit, remote) api_result" where
  "store_DeleteRule i r s =
     (case map_of (stored_sections s) i of
        None \<Rightarrow> answer_not_found () s
      | Some old \<Rightarrow>
          if r \<in> set (map Rule_Id (SectionRL_Rules old)) then
            let obj' = old\<lparr>SectionRL_Rules := filter (\<lambda>rule. Rule_Id rule \<noteq> r) (SectionRL_Rules old)\<rparr>
            in (((), Some ok, None), s\<lparr>stored_sections := put i obj' (stored_sections s)\<rparr>)
          else answer_not_found () s)"

definition store_DeleteSection :: "string \<Rightarrow> optionals \<Rightarrow> remote \<Rightarrow> (unit, remote) api_result" where
  "store_DeleteSection i opts s =
     (case map_of (stored_sections s) i of
        None \<Rightarrow> answer_not_found () s
      | Some old \<Rightarrow> (((), Some ok, None), s\<lparr>stored_sections := remove i (stored_sections s)\<rparr>))"

definition store :: "remote APIClient" where
  "store = \<lparr>
     CreateL4PortSetNSService = store_CreateL4PortSetNSService,
     ReadL4PortSetNSService = store_ReadL4PortSetNSService,
     UpdateL4PortSetNSService = store_UpdateL4PortSetNSService,
     DeleteNSService = store_DeleteNSService,
     AddNatRule = store_AddNatRule,
     GetNatRule = store_GetNatRule,
     UpdateNatRule = store_UpdateNatRule,
     DeleteNatRule = store_DeleteNatRule,
     AddSection = store_AddSection,
     AddSectionWithRulesCreateWithRules = store_AddSectionWithRulesCreateWithRules,
     GetSectionWithRulesListWithRules = store_GetSectionWithRulesListWithRules,
     GetSection = store_GetSection,
     UpdateSection = store_UpdateSection,
     UpdateSectionWithRulesUpdateWithRules = store_UpdateSectionWithRulesUpdateWithRules,
     DeleteRule = store_DeleteRule,
     DeleteSection = store_DeleteSection\<rparr>"

text \<open>The rules that the remote side holds for a section.\<close>

definition remote_rules :: "remote \<Rightarrow> string \<Rightarrow> FirewallRule list" where
  "remote_rules s i = (case map_of (stored_sections s) i of None \<Rightarrow> [] | Some obj \<Rightarrow> SectionRL_Rules obj)"

section \<open>Example records and remote states\<close>

definition example_service :: L4PortSetNsServiceData where
  "example_service = \<lparr>l4_Id = ''svc-1'', l4_revision = 3, l4_system_owned = True,
     l4_description = ''web traffic'', l4_display_name = ''http'',
     l4_tags = [\<lparr>Tag_Scope = ''env'', Tag_Tag = ''prod''\<rparr>], l4_default_service = False,
     l4_destination_ports = {|''80''|}, l4_source_ports = {||}, l4_l4_protocol = ''TCP''\<rparr>"

definition new_service :: L4PortSetNsServiceData where
  "new_service = example_service\<lparr>l4_Id := ''''\<rparr>"

definition example_nat_rule :: NatRuleData where
  "example_nat_rule = \<lparr>nat_Id = ''nat-1'', nat_revision = 7, nat_description = ''outbound'',
     nat_display_name = ''snat'', nat_tag = [], nat_action = ''SNAT'', nat_enabled = True,
     nat_logging = False, nat_logical_router_id = ''router-1'',
     nat_match_destination_network = '''', nat_match_source_network = ''10.0.0.0/24'',
     nat_nat_pass = True, nat_rule_priority = 0, nat_translated_network = ''192.0.2.1'',
     nat_translated_ports = ''''\<rparr>"

definition new_nat_rule :: NatRuleData where
  "new_nat_rule = example_nat_rule\<lparr>nat_Id := ''''\<rparr>"

definition example_rule :: rule_elem where
  "example_rule = \<lparr>rule_revision = 0, rule_description = ''allow web'',
     rule_display_name = ''web'', rule_action = ''ALLOW'', rule_applied_to = [],
     rule_destination = [\<lparr>Ref_IsValid = True, Ref_TargetDisplayName = ''servers'',
       Ref_TargetId = ''grp-1'', Ref_TargetType = ''NSGroup''\<rparr>],
     rule_destinations_excluded = False, rule_direction = ''IN'', rule_disabled = False,
     rule_ip_protocol = ''IPV4'', rule_logged = True, rule_notes = '''', rule_rule_tag = '''',
     rule_source = [], rule_sources_excluded = False,
     rule_service = [\<lparr>srv_is_valid = True, srv_target_display_name = ''http'',
       srv_target_id = ''svc-1'', srv_target_type = ''NSService''\<rparr>]\<rparr>"

definition example_section :: FirewallSectionData where
  "example_section = \<lparr>fw_Id = ''sec-1'', fw_revision = 2, fw_description = ''edge'',
     fw_display_name = ''edge section'', fw_tag = [], fw_is_default = False,
     fw_section_type = ''LAYER3'', fw_stateful = True, fw_applied_to = [],
     fw_rule = [example_rule]\<rparr>"

definition new_section :: FirewallSectionData where
  "new_section = example_section\<lparr>fw_Id := ''''\<rparr>"

definition emptied_section :: FirewallSectionData where
  "emptied_section = example_section\<lparr>fw_rule := []\<rparr>"

definition empty_remote :: remote where
  "empty_remote = \<lparr>fresh_ids = [''id-1''], stored_services = [], stored_nat_rules = [],
     stored_sections = []\<rparr>"

definition remote_rule :: "string \<Rightarrow> FirewallRule" where
  "remote_rule i = \<lparr>Rule_Id = i, Rule_Revision = 0, Rule_DisplayName = ''web'', Rule_RuleTag = '''',
     Rule_Notes = '''', Rule_Description = '''', Rule_Action = ''ALLOW'', Rule_Logged = False,
     Rule_Disabled = False, Rule_SourcesExcluded = False, Rule_DestinationsExcluded = False,
     Rule_IpProtocol = ''IPV4'', Rule_Direction = ''IN'', Rule_Sources = [], Rule_Destinations = [],
     Rule_Services = []\<rparr>"

definition remote_with_rules :: remote where
  "remote_with_rules = \<lparr>fresh_ids = [], stored_services = [], stored_nat_rules = [],
     stored_sections = [(''sec-1'',
       (with_rules zero_FirewallSection [remote_rule ''rule-1'', remote_rule ''rule-2''])
         \<lparr>SectionRL_Id := ''sec-1''\<rparr>)]\<rparr>"

text \<open>The \<open>store\<close> client with a \<^verbatim>\<open>DeleteRule\<close> that fails in the transport and deletes
  nothing.\<close>

definition store_failing_deletes :: "remote APIClient" where
  "store_failing_deletes =
     store\<lparr>DeleteRule := (\<lambda>i r s. (((), None, Some ''connection reset by peer''), s))\<rparr>"

text \<open>What the claims take as hypothesis: what a Get returns after a Create that answered 201 is
  the object as it was submitted, with some identifier.\<close>

definition returns_as_submitted_l4 :: "'s APIClient \<Rightarrow> 's \<Rightarrow> bool" where
  "returns_as_submitted_l4 api s =
     (\<forall>obj obj' r s' obj'' r' s''.
        CreateL4PortSetNSService api obj s = ((obj', Some r, None), s') \<and>
        StatusCode r = StatusCreated \<and>
        ReadL4PortSetNSService api (NsService_Id (L4_NsService obj')) s' = ((obj'', Some r', None), s'') \<and>
        StatusCode r' \<noteq> StatusNotFound
        \<longrightarrow> (\<exists>i. obj'' = obj\<lparr>L4_NsService := (L4_NsService obj)\<lparr>NsService_Id := i\<rparr>\<rparr>))"

definition returns_as_submitted_nat :: "'s APIClient \<Rightarrow> 's \<Rightarrow> bool" where
  "returns_as_submitted_nat api s =
     (\<forall>lr obj obj' r s' obj'' r' s''.
        AddNatRule api lr obj s = ((obj', Some r, None), s') \<and>
        StatusCode r = StatusCreated \<and>
        GetNatRule api lr (NatRule_Id obj') s' = ((obj'', Some r', None), s'') \<and>
        StatusCode r' \<noteq> StatusNotFound
        \<longrightarrow> (\<exists>i. obj'' = obj\<lparr>NatRule_Id := i\<rparr>))"

definition returns_as_submitted_fw :: "'s APIClient \<Rightarrow> 's \<Rightarrow> bool" where
  "returns_as_submitted_fw api s =
     ((\<forall>obj obj' r s1 x r1 s2.
         AddSectionWithRulesCreateWithRules api obj [] s = ((obj', Some r, None), s1) \<and>
         StatusCode r = StatusCreated \<and>
         GetSectionWithRulesListWithRules api (SectionRL_Id obj') s1 = ((x, Some r1, None), s2) \<and>
         StatusCode r1 \<noteq> StatusNotFound
         \<longrightarrow> (\<exists>i. x = obj\<lparr>SectionRL_Id := i\<rparr>) \<and>
             (\<forall>y r2 s3.
                GetSection api (SectionRL_Id obj') s2 = ((y, Some r2, None), s3) \<and>
                StatusCode r2 \<noteq> StatusNotFound
                \<longrightarrow> y = section_of x)) \<and>
      (\<forall>obj obj' r s1 x r1 s2.
         AddSection api obj [] s = ((obj', Some r, None), s1) \<and>
         StatusCode r = StatusCreated \<and>
         GetSectionWithRulesListWithRules api (Section_Id obj') s1 = ((x, Some r1, None), s2) \<and>
         StatusCode r1 \<noteq> StatusNotFound
         \<longrightarrow> (\<exists>i. x = (with_rules obj [])\<lparr>SectionRL_Id := i\<rparr>) \<and>
             (\<forall>y r2 s3.
                GetSection api (Section_Id obj') s2 = ((y, Some r2, None), s3) \<and>
                StatusCode r2 \<noteq> StatusNotFound
                \<longrightarrow> y = section_of x)))"

text \<open>Records as Create receives them, before the server has assigned anything: no
  identifier, the revision 0, not system owned.\<close>

definition fresh_service :: L4PortSetNsServiceData where
  "fresh_service = example_service\<lparr>l4_Id := '''', l4_revision := 0, l4_system_owned := False\<rparr>"

definition fresh_nat_rule :: NatRuleData where
  "fresh_nat_rule = example_nat_rule\<lparr>nat_Id := '''', nat_revision := 0\<rparr>"

definition fresh_section :: FirewallSectionData where
  "fresh_section = example_section\<lparr>fw_Id := '''', fw_revision := 0\<rparr>"

text \<open>
  An API call succeeded, for a Create handler, when it returned no error and a response
  with status 201 (\<open>answered res StatusCreated\<close>); for the other handlers, when it
  returned no error and a response with a status other than 404 (\<open>found\<close>).
\<close>

definition answered :: "('a, 's) api_result \<Rightarrow> int \<Rightarrow> bool" where
  "answered res code = (err_of res = None \<and> has_status res code)"

definition found :: "('a, 's) api_result \<Rightarrow> bool" where
  "found res =
     (err_of res = None \<and>
      (case response_of res of None \<Rightarrow> False | Some r \<Rightarrow> StatusCode r \<noteq> StatusNotFound))"

text \<open>
  What it is for a request to carry the fields of a local record: each field of the
  struct has the value of the key it is named after.  The revision is left to the
  statements below, which say what it is for each handler; the identifier is not part
  of the request body.  A field of \<^verbatim>\<open>schema.TypeSet\<close> is carried by a list of its
  elements.
\<close>

definition service_fields_submitted :: "L4PortSetNsServiceData \<Rightarrow> L4PortSetNsService \<Rightarrow> bool" where
  "service_fields_submitted d req =
     (NsService_Description (L4_NsService req) = l4_description d \<and>
      NsService_DisplayName (L4_NsService req) = l4_display_name d \<and>
      NsService_Tags (L4_NsService req) = l4_tags d \<and>
      NsService_DefaultService (L4_NsService req) = l4_default_service d \<and>
      Entry_L4Protocol (L4_NsserviceElement req) = l4_l4_protocol d \<and>
      fset_of_list (Entry_DestinationPorts (L4_NsserviceElement req)) = l4_destination_ports d \<and>
      fset_of_list (Entry_SourcePorts (L4_NsserviceElement req)) = l4_source_ports d)"

definition nat_fields_submitted :: "NatRuleData \<Rightarrow> NatRule \<Rightarrow> bool" where
  "nat_fields_submitted d req =
     (NatRule_Description req = nat_description d \<and>
      NatRule_DisplayName req = nat_display_name d \<and>
      NatRule_Tags req = nat_tag d \<and>
      NatRule_Action req = nat_action d \<and>
      NatRule_Enabled req = nat_enabled d \<and>
      NatRule_Logging req = nat_logging d \<and>
      NatRule_LogicalRouterId req = nat_logical_router_id d \<and>
      NatRule_MatchDestinationNetwork req = nat_match_destination_network d \<and>
      NatRule_MatchSourceNetwork req = nat_match_source_network d \<and>
      NatRule_NatPass req = nat_nat_pass d \<and>
      NatRule_RulePriority req = nat_rule_priority d \<and>
      NatRule_TranslatedNetwork req = nat_translated_network d \<and>
      NatRule_TranslatedPorts req = nat_translated_ports d)"

definition section_fields_submitted :: "FirewallSectionData \<Rightarrow> FirewallSection \<Rightarrow> bool" where
  "section_fields_submitted d req =
     (Section_Description req = fw_description d \<and>
      Section_DisplayName req = fw_display_name d \<and>
      Section_Tags req = fw_tag d \<and>
      Section_AppliedTos req = fw_applied_to d \<and>
      Section_IsDefault req = fw_is_default d \<and>
      Section_SectionType req = fw_section_type d \<and>
      Section_Stateful req = fw_stateful d)"

text \<open>
  The rules of a request carry the local rules when there is one rule for each local
  rule element, in the same order, and each field of the rule has the value of the key
  it is named after.  The key \<^verbatim>\<open>applied_to\<close> of a rule element is not compared.
\<close>

definition service_submitted :: "service_elem \<Rightarrow> FirewallService \<Rightarrow> bool" where
  "service_submitted e srv =
     (Service_IsValid srv = srv_is_valid e \<and>
      Service_TargetDisplayName srv = srv_target_display_name e \<and>
      Service_TargetId srv = srv_target_id e \<and>
      Service_TargetType srv = srv_target_type e)"

definition rule_fields_submitted :: "rule_elem \<Rightarrow> FirewallRule \<Rightarrow> bool" where
  "rule_fields_submitted e rule =
     (Rule_Revision rule = rule_revision e \<and>
      Rule_DisplayName rule = rule_display_name e \<and>
      Rule_RuleTag rule = rule_rule_tag e \<and>
      Rule_Notes rule = rule_notes e \<and>
      Rule_Description rule = rule_description e \<and>
      Rule_Action rule = rule_action e \<and>
      Rule_Logged rule = rule_logged e \<and>
      Rule_Disabled rule = rule_disabled e \<and>
      Rule_SourcesExcluded rule = rule_sources_excluded e \<and>
      Rule_DestinationsExcluded rule = rule_destinations_excluded e \<and>
      Rule_IpProtocol rule = rule_ip_protocol e \<and>
      Rule_Direction rule = rule_direction e \<and>
      Rule_Sources rule = rule_source e \<and>
      Rule_Destinations rule = rule_destination e \<and>
      list_all2 service_submitted (rule_service e) (Rule_Services rule))"

definition rules_submitted :: "FirewallSectionData \<Rightarrow> FirewallRule list \<Rightarrow> bool" where
  "rules_submitted d rules = list_all2 rule_fields_submitted (fw_rule d) rules"


text \<open>
  What it is for the fields of a local record to be as they were: every key that the
  schema of the resource declares has the same value in both records.
\<close>

definition service_fields_kept :: "L4PortSetNsServiceData \<Rightarrow> L4PortSetNsServiceData \<Rightarrow> bool" where
  "service_fields_kept d d' =
     (l4_revision d' = l4_revision d \<and>
      l4_system_owned d' = l4_system_owned d \<and>
      l4_description d' = l4_description d \<and>
      l4_display_name d' = l4_display_name d \<and>
      l4_tags d' = l4_tags d \<and>
      l4_default_service d' = l4_default_service d \<and>
      l4_destination_ports d' = l4_destination_ports d \<and>
      l4_source_ports d' = l4_source_ports d \<and>
      l4_l4_protocol d' = l4_l4_protocol d)"

definition nat_fields_kept :: "NatRuleData \<Rightarrow> NatRuleData \<Rightarrow> bool" where
  "nat_fields_kept d d' =
     (nat_revision d' = nat_revision d \<and>
      nat_description d' = nat_description d \<and>
      nat_display_name d' = nat_display_name d \<and>
      nat_tag d' = nat_tag d \<and>
      nat_action d' = nat_action d \<and>
      nat_enabled d' = nat_enabled d \<and>
      nat_logging d' = nat_logging d \<and>
      nat_logical_router_id d' = nat_logical_router_id d \<and>
      nat_match_destination_network d' = nat_match_destination_network d \<and>
      nat_match_source_network d' = nat_match_source_network d \<and>
      nat_nat_pass d' = nat_nat_pass d \<and>
      nat_rule_priority d' = nat_rule_priority d \<and>
      nat_translated_network d' = nat_translated_network d \<and>
      nat_translated_ports d' = nat_translated_ports d)"

definition section_fields_kept :: "FirewallSectionData \<Rightarrow> FirewallSectionData \<Rightarrow> bool" where
  "section_fields_kept d d' =
     (fw_revision d' = fw_revision d \<and>
      fw_description d' = fw_description d \<and>
      fw_display_name d' = fw_display_name d \<and>
      fw_tag d' = fw_tag d \<and>
      fw_is_default d' = fw_is_default d \<and>
      fw_section_type d' = fw_section_type d \<and>
      fw_stateful d' = fw_stateful d \<and>
      fw_applied_to d' = fw_applied_to d \<and>
      fw_rule d' = fw_rule d)"

section \<open>Facts about the observations\<close>

lemma has_statusD:
  "has_status res code \<Longrightarrow> res = ((p, resp, err), s') \<Longrightarrow> \<exists>r. resp = Some r \<and> StatusCode r = code"
  by (auto simp: has_status_def response_of_def split: option.splits)

lemma err_ofD: "err_of res = e \<Longrightarrow> res = ((p, resp, err), s') \<Longrightarrow> err = e"
  by (simp add: err_of_def)

lemma response_ofD: "response_of res = r \<Longrightarrow> res = ((p, resp, err), s') \<Longrightarrow> resp = r"
  by (simp add: response_of_def)

section \<open>No identifier, no call\<close>

lemma l4_no_id:
  assumes "l4_Id d = ''''"
  shows "resourceL4PortSetNsServiceRead api d s = (ReturnErrorf ''Error obtaining logical object id'' [], d, s)"
    and "resourceL4PortSetNsServiceUpdate api d s = (ReturnErrorf ''Error obtaining logical object id'' [], d, s)"
    and "resourceL4PortSetNsServiceDelete api d s = (ReturnErrorf ''Error obtaining logical object id'' [], d, s)"
  using assms
  by (simp_all add: resourceL4PortSetNsServiceRead_def resourceL4PortSetNsServiceUpdate_def
      resourceL4PortSetNsServiceDelete_def)

lemma nat_no_id:
  assumes "nat_Id d = '''' \<or> nat_logical_router_id d = ''''"
  shows "resourceNsxtNatRuleRead api d s = (ReturnErrorf ''Error obtaining logical object id'' [], d, s)"
    and "resourceNsxtNatRuleUpdate api d s = (ReturnErrorf ''Error obtaining logical object id'' [], d, s)"
    and "resourceNsxtNatRuleDelete api d s = (ReturnErrorf ''Error obtaining logical object id'' [], d, s)"
  using assms
  by (auto simp add: resourceNsxtNatRuleRead_def resourceNsxtNatRuleUpdate_def
      resourceNsxtNatRuleDelete_def Let_def)

lemma nat_no_router:
  assumes "nat_logical_router_id d = ''''"
  shows "resourceNsxtNatRuleCreate api d s = (ReturnErrorf ''Error obtaining logical object id'' [], d, s)"
  using assms by (simp add: resourceNsxtNatRuleCreate_def)

lemma fw_no_id:
  assumes "fw_Id d = ''''"
  shows "resourceNsxtFirewallSectionRead api d s = (ReturnErrorf ''Error obtaining logical object id'' [], d, s)"
    and "resourceNsxtFirewallSectionUpdate api d s = (ReturnErrorf ''Error obtaining logical object id'' [], d, s)"
    and "resourceNsxtFirewallSectionDelete api d s = (ReturnErrorf ''Error obtaining logical object id'' [], d, s)"
  using assms
  by (simp_all add: resourceNsxtFirewallSectionRead_def resourceNsxtFirewallSectionUpdate_def
      resourceNsxtFirewallSectionDelete_def)

text \<open>
  C9.  With an empty local identifier, the Read, Update and Delete handler of each of
  the three resources returns the error "Error obtaining logical object id", leaves the
  record and the remote state as they were, and makes no API call: the list of calls of
  the observing client stays empty.  The handlers of the NAT rule, Create among them, do
  the same when the stored \<^verbatim>\<open>logical_router_id\<close> is empty.
\<close>

theorem empty_identifier_no_call:
  "(l4_Id dl = '''' \<longrightarrow>
      resourceL4PortSetNsServiceRead (logged api) dl (s, []) =
        (ReturnErrorf ''Error obtaining logical object id'' [], dl, (s, [])) \<and>
      resourceL4PortSetNsServiceUpdate (logged api) dl (s, []) =
        (ReturnErrorf ''Error obtaining logical object id'' [], dl, (s, [])) \<and>
      resourceL4PortSetNsServiceDelete (logged api) dl (s, []) =
        (ReturnErrorf ''Error obtaining logical object id'' [], dl, (s, []))) \<and>
   (nat_Id dn = '''' \<or> nat_logical_router_id dn = '''' \<longrightarrow>
      resourceNsxtNatRuleRead (logged api) dn (s, []) =
        (ReturnErrorf ''Error obtaining logical object id'' [], dn, (s, [])) \<and>
      resourceNsxtNatRuleUpdate (logged api) dn (s, []) =
        (ReturnErrorf ''Error obtaining logical object id'' [], dn, (s, [])) \<and>
      resourceNsxtNatRuleDelete (logged api) dn (s, []) =
        (ReturnErrorf ''Error obtaining logical object id'' [], dn, (s, []))) \<and>
   (nat_logical_router_id dn = '''' \<longrightarrow>
      resourceNsxtNatRuleCreate (logged api) dn (s, []) =
        (ReturnErrorf ''Error obtaining logical object id'' [], dn, (s, []))) \<and>
   (fw_Id df = '''' \<longrightarrow>
      resourceNsxtFirewallSectionRead (logged api) df (s, []) =
        (ReturnErrorf ''Error obtaining logical object id'' [], df, (s, [])) \<and>
      resourceNsxtFirewallSectionUpdate (logged api) df (s, []) =
        (ReturnErrorf ''Error obtaining logical object id'' [], df, (s, [])) \<and>
      resourceNsxtFirewallSectionDelete (logged api) df (s, []) =
        (ReturnErrorf ''Error obtaining logical object id'' [], df, (s, [])))"
  by (intro conjI impI l4_no_id nat_no_id nat_no_router fw_no_id) assumption+

theorem empty_identifier_no_call_witness:
  "l4_Id new_service = '''' \<and> nat_Id new_nat_rule = '''' \<and> fw_Id new_section = '''' \<and>
   nat_logical_router_id (new_nat_rule\<lparr>nat_logical_router_id := ''''\<rparr>) = '''' \<and>
   calls_of (resourceL4PortSetNsServiceDelete (logged store) new_service (empty_remote, [])) = [] \<and>
   calls_of (resourceNsxtNatRuleRead (logged store) new_nat_rule (empty_remote, [])) = [] \<and>
   is_error (result_of (resourceNsxtFirewallSectionUpdate (logged store) new_section (empty_remote, []))) \<and>
   is_error (result_of (resourceNsxtNatRuleCreate (logged store)
     (new_nat_rule\<lparr>nat_logical_router_id := ''''\<rparr>) (empty_remote, [])))"
proof -
  have h1: "l4_Id new_service = ''''"
    by (simp add: new_service_def)
  have h2: "nat_Id new_nat_rule = ''''"
    by (simp add: new_nat_rule_def)
  have h3: "fw_Id new_section = ''''"
    by (simp add: new_section_def)
  have h4: "nat_logical_router_id (new_nat_rule\<lparr>nat_logical_router_id := ''''\<rparr>) = ''''"
    by simp
  note t = empty_identifier_no_call [where api = store and s = empty_remote]
  from h1 h2 h3 t [where dl = new_service and dn = new_nat_rule and df = new_section]
    h4 t [where dn = "new_nat_rule\<lparr>nat_logical_router_id := ''''\<rparr>"]
  show ?thesis
    by (simp add: calls_of_def result_of_def)
qed

section \<open>Not found on Update\<close>

lemma l4_update_not_found:
  assumes "\<forall>obj. has_status (UpdateL4PortSetNSService api (l4_Id d) obj s) StatusNotFound"
  shows "is_error (result_of (resourceL4PortSetNsServiceUpdate api d s))"
    and "data_of (resourceL4PortSetNsServiceUpdate api d s) = d"
  using assms
  by (fastforce simp add: resourceL4PortSetNsServiceUpdate_def result_of_def data_of_def Let_def
      split: prod.splits option.splits dest: has_statusD)+

lemma nat_update_not_found:
  assumes "\<forall>obj. has_status (UpdateNatRule api (nat_logical_router_id d) (nat_Id d) obj s) StatusNotFound"
  shows "is_error (result_of (resourceNsxtNatRuleUpdate api d s))"
    and "data_of (resourceNsxtNatRuleUpdate api d s) = d"
  using assms
  by (fastforce simp add: resourceNsxtNatRuleUpdate_def result_of_def data_of_def Let_def
      split: prod.splits option.splits dest: has_statusD)+

lemma fw_update_empty_not_found:
  assumes "\<forall>obj. has_status (UpdateSection api i obj s) StatusNotFound"
  shows "is_error (result_of (resourceNsxtFirewallSectionUpdateEmpty api d i s))"
    and "data_of (resourceNsxtFirewallSectionUpdateEmpty api d i s) = d"
  using assms
  by (fastforce simp add: resourceNsxtFirewallSectionUpdateEmpty_def result_of_def data_of_def Let_def
      split: prod.splits option.splits dest: has_statusD)+

lemma fw_update_not_found:
  assumes "\<forall>obj. has_status (UpdateSection api (fw_Id d) obj s) StatusNotFound"
    and "\<forall>obj. has_status (UpdateSectionWithRulesUpdateWithRules api (fw_Id d) obj s) StatusNotFound"
  shows "is_error (result_of (resourceNsxtFirewallSectionUpdate api d s))"
    and "data_of (resourceNsxtFirewallSectionUpdate api d s) = d"
  using assms(2) fw_update_empty_not_found [OF assms(1), of d]
  by (fastforce simp add: resourceNsxtFirewallSectionUpdate_def result_of_def data_of_def Let_def
      split: prod.splits option.splits dest: has_statusD)+

text \<open>
  C3.  When the update call of an Update handler is answered with status 404, whatever
  request it is given and whether or not an error comes with the response, the handler
  returns an error and the local record, its identifier included, is as it was.  For
  the firewall section the update call is \<^verbatim>\<open>UpdateSection\<close> when the local rule list is
  empty and \<^verbatim>\<open>UpdateSectionWithRulesUpdateWithRules\<close> otherwise.
\<close>

theorem update_not_found_is_error:
  "((\<forall>obj. has_status (UpdateL4PortSetNSService api (l4_Id dl) obj s) StatusNotFound) \<longrightarrow>
      is_error (result_of (resourceL4PortSetNsServiceUpdate api dl s)) \<and>
      data_of (resourceL4PortSetNsServiceUpdate api dl s) = dl \<and>
      l4_Id (data_of (resourceL4PortSetNsServiceUpdate api dl s)) = l4_Id dl) \<and>
   ((\<forall>obj. has_status (UpdateNatRule api (nat_logical_router_id dn) (nat_Id dn) obj s)
        StatusNotFound) \<longrightarrow>
      is_error (result_of (resourceNsxtNatRuleUpdate api dn s)) \<and>
      data_of (resourceNsxtNatRuleUpdate api dn s) = dn \<and>
      nat_Id (data_of (resourceNsxtNatRuleUpdate api dn s)) = nat_Id dn) \<and>
   ((\<forall>obj. has_status (UpdateSection api (fw_Id df) obj s) StatusNotFound) \<and>
    (\<forall>obj. has_status (UpdateSectionWithRulesUpdateWithRules api (fw_Id df) obj s)
        StatusNotFound) \<longrightarrow>
      is_error (result_of (resourceNsxtFirewallSectionUpdate api df s)) \<and>
      data_of (resourceNsxtFirewallSectionUpdate api df s) = df \<and>
      fw_Id (data_of (resourceNsxtFirewallSectionUpdate api df s)) = fw_Id df)"
  by (simp add: l4_update_not_found nat_update_not_found fw_update_not_found)

lemma fixed_reply_status:
  "has_status (UpdateL4PortSetNSService (fixed_reply (Some r) e) i obj s) (StatusCode r)"
  "has_status (UpdateNatRule (fixed_reply (Some r) e) lr i nobj s) (StatusCode r)"
  "has_status (UpdateSection (fixed_reply (Some r) e) i sobj s) (StatusCode r)"
  "has_status (UpdateSectionWithRulesUpdateWithRules (fixed_reply (Some r) e) i robj s) (StatusCode r)"
  "has_status (DeleteNSService (fixed_reply (Some r) e) i opts s) (StatusCode r)"
  "has_status (DeleteNatRule (fixed_reply (Some r) e) lr i s) (StatusCode r)"
  "has_status (DeleteSection (fixed_reply (Some r) e) i opts s) (StatusCode r)"
  by (simp_all add: fixed_reply_def has_status_def response_of_def)

lemma fixed_reply_err:
  "err_of (DeleteNSService (fixed_reply r e) i opts s) = e"
  "err_of (DeleteNatRule (fixed_reply r e) lr i s) = e"
  "err_of (DeleteSection (fixed_reply r e) i opts s) = e"
  by (simp_all add: fixed_reply_def err_of_def)

theorem update_not_found_is_error_witness:
  "(\<forall>obj. has_status (UpdateL4PortSetNSService (fixed_reply (Some not_found) (Some ''404 Not Found''))
       (l4_Id example_service) obj ()) StatusNotFound) \<and>
   (\<forall>obj. has_status (UpdateNatRule (fixed_reply (Some not_found) (Some ''404 Not Found''))
       (nat_logical_router_id example_nat_rule) (nat_Id example_nat_rule) obj ()) StatusNotFound) \<and>
   (\<forall>obj. has_status (UpdateSection (fixed_reply (Some not_found) (Some ''404 Not Found''))
       (fw_Id example_section) obj ()) StatusNotFound) \<and>
   (\<forall>obj. has_status (UpdateSectionWithRulesUpdateWithRules
       (fixed_reply (Some not_found) (Some ''404 Not Found'')) (fw_Id example_section) obj ())
       StatusNotFound) \<and>
   is_error (result_of (resourceL4PortSetNsServiceUpdate
     (fixed_reply (Some not_found) (Some ''404 Not Found'')) example_service ())) \<and>
   l4_Id (data_of (resourceL4PortSetNsServiceUpdate
     (fixed_reply (Some not_found) (Some ''404 Not Found'')) example_service ())) = ''svc-1'' \<and>
   is_error (result_of (resourceNsxtNatRuleUpdate
     (fixed_reply (Some not_found) (Some ''404 Not Found'')) example_nat_rule ())) \<and>
   nat_Id (data_of (resourceNsxtNatRuleUpdate
     (fixed_reply (Some not_found) (Some ''404 Not Found'')) example_nat_rule ())) = ''nat-1'' \<and>
   is_error (result_of (resourceNsxtFirewallSectionUpdate
     (fixed_reply (Some not_found) (Some ''404 Not Found'')) example_section ())) \<and>
   fw_Id (data_of (resourceNsxtFirewallSectionUpdate
     (fixed_reply (Some not_found) (Some ''404 Not Found'')) example_section ())) = ''sec-1''"
proof -
  have c: "StatusCode not_found = StatusNotFound"
    by (simp add: not_found_def StatusNotFound_def)
  have h1: "\<forall>obj. has_status (UpdateL4PortSetNSService
      (fixed_reply (Some not_found) (Some ''404 Not Found'')) (l4_Id example_service) obj ())
      StatusNotFound"
    using fixed_reply_status(1) [of not_found] by (simp add: c)
  have h2: "\<forall>obj. has_status (UpdateNatRule (fixed_reply (Some not_found) (Some ''404 Not Found''))
      (nat_logical_router_id example_nat_rule) (nat_Id example_nat_rule) obj ()) StatusNotFound"
    using fixed_reply_status(2) [of not_found] by (simp add: c)
  have h3: "\<forall>obj. has_status (UpdateSection (fixed_reply (Some not_found) (Some ''404 Not Found''))
      (fw_Id example_section) obj ()) StatusNotFound"
    using fixed_reply_status(3) [of not_found] by (simp add: c)
  have h4: "\<forall>obj. has_status (UpdateSectionWithRulesUpdateWithRules
      (fixed_reply (Some not_found) (Some ''404 Not Found'')) (fw_Id example_section) obj ())
      StatusNotFound"
    using fixed_reply_status(4) [of not_found] by (simp add: c)
  have ids: "l4_Id example_service = ''svc-1''" "nat_Id example_nat_rule = ''nat-1''"
    "fw_Id example_section = ''sec-1''"
    by (simp_all add: example_service_def example_nat_rule_def example_section_def)
  from h1 h2 h3 h4 ids
    update_not_found_is_error [where api = "fixed_reply (Some not_found) (Some ''404 Not Found'')"
      and s = "()" and dl = example_service and dn = example_nat_rule and df = example_section]
  show ?thesis
    by simp
qed

section \<open>Delete\<close>

lemma l4_delete_not_found:
  assumes "l4_Id d \<noteq> ''''"
    and "err_of (DeleteNSService api (l4_Id d) [] s) = None"
    and "has_status (DeleteNSService api (l4_Id d) [] s) StatusNotFound"
  shows "result_of (resourceL4PortSetNsServiceDelete api d s) = ReturnNil"
    and "l4_Id (data_of (resourceL4PortSetNsServiceDelete api d s)) = ''''"
  using assms
  by (auto simp add: resourceL4PortSetNsServiceDelete_def result_of_def data_of_def Let_def
      split: prod.splits option.splits dest: has_statusD err_ofD)

lemma l4_delete_failure:
  assumes "l4_Id d \<noteq> ''''"
    and "err_of (DeleteNSService api (l4_Id d) [] s) = Some e"
  shows "error_with_context e (result_of (resourceL4PortSetNsServiceDelete api d s))"
    and "data_of (resourceL4PortSetNsServiceDelete api d s) = d"
  using assms
  by (auto simp add: resourceL4PortSetNsServiceDelete_def result_of_def data_of_def Let_def
      split: prod.splits option.splits dest: err_ofD)

lemma nat_delete_not_found:
  assumes "nat_Id d \<noteq> ''''" and "nat_logical_router_id d \<noteq> ''''"
    and "err_of (DeleteNatRule api (nat_logical_router_id d) (nat_Id d) s) = None"
    and "has_status (DeleteNatRule api (nat_logical_router_id d) (nat_Id d) s) StatusNotFound"
  shows "result_of (resourceNsxtNatRuleDelete api d s) = ReturnNil"
    and "nat_Id (data_of (resourceNsxtNatRuleDelete api d s)) = ''''"
  using assms
  by (auto simp add: resourceNsxtNatRuleDelete_def result_of_def data_of_def Let_def
      split: prod.splits option.splits dest: has_statusD err_ofD)

lemma nat_delete_failure:
  assumes "nat_Id d \<noteq> ''''" and "nat_logical_router_id d \<noteq> ''''"
    and "err_of (DeleteNatRule api (nat_logical_router_id d) (nat_Id d) s) = Some e"
  shows "error_with_context e (result_of (resourceNsxtNatRuleDelete api d s))"
    and "data_of (resourceNsxtNatRuleDelete api d s) = d"
  using assms
  by (auto simp add: resourceNsxtNatRuleDelete_def result_of_def data_of_def Let_def
      split: prod.splits option.splits dest: err_ofD)

lemma fw_delete_not_found:
  assumes "fw_Id d \<noteq> ''''"
    and "err_of (DeleteSection api (fw_Id d) [(''cascade'', True)] s) = None"
    and "has_status (DeleteSection api (fw_Id d) [(''cascade'', True)] s) StatusNotFound"
  shows "result_of (resourceNsxtFirewallSectionDelete api d s) = ReturnNil"
    and "fw_Id (data_of (resourceNsxtFirewallSectionDelete api d s)) = ''''"
  using assms
  by (auto simp add: resourceNsxtFirewallSectionDelete_def result_of_def data_of_def Let_def
      split: prod.splits option.splits dest: has_statusD err_ofD)

lemma fw_delete_failure:
  assumes "fw_Id d \<noteq> ''''"
    and "err_of (DeleteSection api (fw_Id d) [(''cascade'', True)] s) = Some e"
  shows "error_with_context e (result_of (resourceNsxtFirewallSectionDelete api d s))"
    and "data_of (resourceNsxtFirewallSectionDelete api d s) = d"
  using assms
  by (auto simp add: resourceNsxtFirewallSectionDelete_def result_of_def data_of_def Let_def
      split: prod.splits option.splits dest: err_ofD)

text \<open>
  C4.  When the delete call of a Delete handler returns no error and a response with
  status 404, the handler returns \<^verbatim>\<open>nil\<close> and the local identifier is the empty string
  afterwards.  When the delete call returns an error, the handler returns an error that
  carries it, and the local record, its identifier included, is as it was.  (The delete
  call is made when the identifiers the handler needs are not empty.)
\<close>

theorem delete_not_found_or_failure:
  "(l4_Id dl \<noteq> '''' \<and>
    err_of (DeleteNSService api (l4_Id dl) [] s) = None \<and>
    has_status (DeleteNSService api (l4_Id dl) [] s) StatusNotFound \<longrightarrow>
      result_of (resourceL4PortSetNsServiceDelete api dl s) = ReturnNil \<and>
      l4_Id (data_of (resourceL4PortSetNsServiceDelete api dl s)) = '''') \<and>
   (l4_Id dl \<noteq> '''' \<and> err_of (DeleteNSService api (l4_Id dl) [] s) = Some e \<longrightarrow>
      error_with_context e (result_of (resourceL4PortSetNsServiceDelete api dl s)) \<and>
      l4_Id (data_of (resourceL4PortSetNsServiceDelete api dl s)) = l4_Id dl) \<and>
   (nat_Id dn \<noteq> '''' \<and> nat_logical_router_id dn \<noteq> '''' \<and>
    err_of (DeleteNatRule api (nat_logical_router_id dn) (nat_Id dn) s) = None \<and>
    has_status (DeleteNatRule api (nat_logical_router_id dn) (nat_Id dn) s) StatusNotFound \<longrightarrow>
      result_of (resourceNsxtNatRuleDelete api dn s) = ReturnNil \<and>
      nat_Id (data_of (resourceNsxtNatRuleDelete api dn s)) = '''') \<and>
   (nat_Id dn \<noteq> '''' \<and> nat_logical_router_id dn \<noteq> '''' \<and>
    err_of (DeleteNatRule api (nat_logical_router_id dn) (nat_Id dn) s) = Some e \<longrightarrow>
      error_with_context e (result_of (resourceNsxtNatRuleDelete api dn s)) \<and>
      nat_Id (data_of (resourceNsxtNatRuleDelete api dn s)) = nat_Id dn) \<and>
   (fw_Id df \<noteq> '''' \<and>
    err_of (DeleteSection api (fw_Id df) [(''cascade'', True)] s) = None \<and>
    has_status (DeleteSection api (fw_Id df) [(''cascade'', True)] s) StatusNotFound \<longrightarrow>
      result_of (resourceNsxtFirewallSectionDelete api df s) = ReturnNil \<and>
      fw_Id (data_of (resourceNsxtFirewallSectionDelete api df s)) = '''') \<and>
   (fw_Id df \<noteq> '''' \<and> err_of (DeleteSection api (fw_Id df) [(''cascade'', True)] s) = Some e \<longrightarrow>
      error_with_context e (result_of (resourceNsxtFirewallSectionDelete api df s)) \<and>
      fw_Id (data_of (resourceNsxtFirewallSectionDelete api df s)) = fw_Id df)"
  by (simp add: l4_delete_not_found l4_delete_failure nat_delete_not_found nat_delete_failure
      fw_delete_not_found fw_delete_failure)

theorem delete_not_found_or_failure_witness:
  "l4_Id example_service \<noteq> '''' \<and> nat_Id example_nat_rule \<noteq> '''' \<and>
   nat_logical_router_id example_nat_rule \<noteq> '''' \<and> fw_Id example_section \<noteq> '''' \<and>
   err_of (DeleteNSService (fixed_reply (Some not_found) None) (l4_Id example_service) [] ()) = None \<and>
   has_status (DeleteNSService (fixed_reply (Some not_found) None) (l4_Id example_service) [] ())
     StatusNotFound \<and>
   result_of (resourceL4PortSetNsServiceDelete (fixed_reply (Some not_found) None)
     example_service ()) = ReturnNil \<and>
   l4_Id (data_of (resourceL4PortSetNsServiceDelete (fixed_reply (Some not_found) None)
     example_service ())) = '''' \<and>
   result_of (resourceNsxtNatRuleDelete (fixed_reply (Some not_found) None)
     example_nat_rule ()) = ReturnNil \<and>
   nat_Id (data_of (resourceNsxtNatRuleDelete (fixed_reply (Some not_found) None)
     example_nat_rule ())) = '''' \<and>
   result_of (resourceNsxtFirewallSectionDelete (fixed_reply (Some not_found) None)
     example_section ()) = ReturnNil \<and>
   fw_Id (data_of (resourceNsxtFirewallSectionDelete (fixed_reply (Some not_found) None)
     example_section ())) = '''' \<and>
   err_of (DeleteNSService (fixed_reply None (Some ''connection refused''))
     (l4_Id example_service) [] ()) = Some ''connection refused'' \<and>
   error_with_context ''connection refused'' (result_of (resourceL4PortSetNsServiceDelete
     (fixed_reply None (Some ''connection refused'')) example_service ())) \<and>
   l4_Id (data_of (resourceL4PortSetNsServiceDelete
     (fixed_reply None (Some ''connection refused'')) example_service ())) = ''svc-1'' \<and>
   error_with_context ''connection refused'' (result_of (resourceNsxtNatRuleDelete
     (fixed_reply None (Some ''connection refused'')) example_nat_rule ())) \<and>
   nat_Id (data_of (resourceNsxtNatRuleDelete
     (fixed_reply None (Some ''connection refused'')) example_nat_rule ())) = ''nat-1'' \<and>
   error_with_context ''connection refused'' (result_of (resourceNsxtFirewallSectionDelete
     (fixed_reply None (Some ''connection refused'')) example_section ())) \<and>
   fw_Id (data_of (resourceNsxtFirewallSectionDelete
     (fixed_reply None (Some ''connection refused'')) example_section ())) = ''sec-1''"
proof -
  have c: "StatusCode not_found = StatusNotFound"
    by (simp add: not_found_def StatusNotFound_def)
  have ids: "l4_Id example_service = ''svc-1''" "nat_Id example_nat_rule = ''nat-1''"
    "nat_logical_router_id example_nat_rule = ''router-1''" "fw_Id example_section = ''sec-1''"
    by (simp_all add: example_service_def example_nat_rule_def example_section_def)
  have st: "has_status (DeleteNSService (fixed_reply (Some not_found) None) i opts ()) StatusNotFound"
    "has_status (DeleteNatRule (fixed_reply (Some not_found) None) lr i ()) StatusNotFound"
    "has_status (DeleteSection (fixed_reply (Some not_found) None) i opts ()) StatusNotFound"
    for i lr opts
    using fixed_reply_status(5-7) [of not_found None] by (simp_all add: c)
  note t = delete_not_found_or_failure [where dl = example_service and dn = example_nat_rule
      and df = example_section and s = "()"]
  from ids st fixed_reply_err
    t [where api = "fixed_reply (Some not_found) None"]
    t [where api = "fixed_reply None (Some ''connection refused'')" and e = "''connection refused''"]
  show ?thesis
    by simp
qed

section \<open>Create and the status of the response\<close>

lemma status_choice:
  assumes "\<forall>obj. \<exists>code. P code \<and> has_status (F obj) code"
  shows "\<exists>f. \<forall>obj. fst (snd (fst (F obj))) = Some (f obj) \<and> P (StatusCode (f obj))"
proof -
  have "\<exists>r. fst (snd (fst (F obj))) = Some r \<and> P (StatusCode r)" for obj
  proof -
    from assms obtain code where "P code" and "has_status (F obj) code"
      by blast
    then show ?thesis
      by (cases "fst (snd (fst (F obj)))") (auto simp: has_status_def response_of_def)
  qed
  then show ?thesis
    by (intro choice allI)
qed

lemma nat_create_unexpected_status:
  assumes "nat_logical_router_id d \<noteq> ''''"
    and "\<forall>obj. err_of (AddNatRule api (nat_logical_router_id d) obj s) = None \<and>
           (\<exists>code. code \<noteq> StatusCreated \<and>
              has_status (AddNatRule api (nat_logical_router_id d) obj s) code)"
  shows "is_error (result_of (resourceNsxtNatRuleCreate api d s))"
    and "data_of (resourceNsxtNatRuleCreate api d s) = d"
proof -
  from assms(2) have e: "snd (snd (fst (AddNatRule api (nat_logical_router_id d) obj s))) = None"
    for obj
    by (simp add: err_of_def)
  from assms(2) obtain f
    where f: "fst (snd (fst (AddNatRule api (nat_logical_router_id d) obj s))) = Some (f obj)"
      "StatusCode (f obj) \<noteq> StatusCreated" for obj
    using status_choice [of "\<lambda>c. c \<noteq> StatusCreated"
        "\<lambda>obj. AddNatRule api (nat_logical_router_id d) obj s"]
    by auto
  show "is_error (result_of (resourceNsxtNatRuleCreate api d s))"
    and "data_of (resourceNsxtNatRuleCreate api d s) = d"
    using assms(1)
    by (simp_all add: resourceNsxtNatRuleCreate_def result_of_def data_of_def Let_def
        case_prod_beta e f)
qed

lemma fw_create_unexpected_status:
  assumes "\<forall>obj. err_of (AddSection api obj [] s) = None \<and>
           (\<exists>code. code \<noteq> StatusCreated \<and> has_status (AddSection api obj [] s) code)"
    and "\<forall>obj. err_of (AddSectionWithRulesCreateWithRules api obj [] s) = None \<and>
           (\<exists>code. code \<noteq> StatusCreated \<and>
              has_status (AddSectionWithRulesCreateWithRules api obj [] s) code)"
  shows "is_error (result_of (resourceNsxtFirewallSectionCreate api d s))"
    and "data_of (resourceNsxtFirewallSectionCreate api d s) = d"
proof -
  from assms(1) have e1: "snd (snd (fst (AddSection api obj [] s))) = None" for obj
    by (simp add: err_of_def)
  from assms(2)
  have e2: "snd (snd (fst (AddSectionWithRulesCreateWithRules api obj [] s))) = None" for obj
    by (simp add: err_of_def)
  from assms(1) obtain f
    where f: "fst (snd (fst (AddSection api obj [] s))) = Some (f obj)"
      "StatusCode (f obj) \<noteq> StatusCreated" for obj
    using status_choice [of "\<lambda>c. c \<noteq> StatusCreated" "\<lambda>obj. AddSection api obj [] s"]
    by auto
  from assms(2) obtain g
    where g: "fst (snd (fst (AddSectionWithRulesCreateWithRules api obj [] s))) = Some (g obj)"
      "StatusCode (g obj) \<noteq> StatusCreated" for obj
    using status_choice [of "\<lambda>c. c \<noteq> StatusCreated"
        "\<lambda>obj. AddSectionWithRulesCreateWithRules api obj [] s"]
    by auto
  show "is_error (result_of (resourceNsxtFirewallSectionCreate api d s))"
    and "data_of (resourceNsxtFirewallSectionCreate api d s) = d"
    by (simp_all add: resourceNsxtFirewallSectionCreate_def
        resourceNsxtFirewallSectionCreateEmpty_def result_of_def data_of_def Let_def
        case_prod_beta e1 e2 f g)
qed

lemma l4_create_unexpected_status:
  assumes "\<forall>obj. err_of (CreateL4PortSetNSService api obj s) = None \<and>
           (\<exists>code. code \<noteq> StatusCreated \<and> has_status (CreateL4PortSetNSService api obj s) code)"
  shows "result_of (resourceL4PortSetNsServiceCreate api d s) = ReturnNil"
    and "data_of (resourceL4PortSetNsServiceCreate api d s) = d"
proof -
  from assms have e: "snd (snd (fst (CreateL4PortSetNSService api obj s))) = None" for obj
    by (simp add: err_of_def)
  from assms obtain f
    where f: "fst (snd (fst (CreateL4PortSetNSService api obj s))) = Some (f obj)"
      "StatusCode (f obj) \<noteq> StatusCreated" for obj
    using status_choice [of "\<lambda>c. c \<noteq> StatusCreated" "\<lambda>obj. CreateL4PortSetNSService api obj s"]
    by auto
  show "result_of (resourceL4PortSetNsServiceCreate api d s) = ReturnNil"
    and "data_of (resourceL4PortSetNsServiceCreate api d s) = d"
    by (simp_all add: resourceL4PortSetNsServiceCreate_def result_of_def data_of_def Let_def
        case_prod_beta e f)
qed

text \<open>
  C1.  The claim asks of every Create handler that a response without error and with a
  status other than 201 makes the handler fail with an error and store no identifier.
  The NAT rule and the firewall section do so (\<open>nat_create_unexpected_status\<close>,
  \<open>fw_create_unexpected_status\<close>).  The Create handler of the L4 port set service stores
  no identifier either, but returns \<^verbatim>\<open>nil\<close>: here it is run on a new record against a
  server that answers 200 and no error.
\<close>

theorem l4_create_status_200_returns_nil:
  "resourceL4PortSetNsServiceCreate (fixed_reply (Some ok) None) new_service () =
     (ReturnNil, new_service, ()) \<and>
   \<not> is_error (result_of (resourceL4PortSetNsServiceCreate (fixed_reply (Some ok) None)
     new_service ())) \<and>
   StatusCode ok \<noteq> StatusCreated"
  by (simp add: resourceL4PortSetNsServiceCreate_def fixed_reply_def ok_def StatusCreated_def
      result_of_def Let_def)

section \<open>Read\<close>

lemma l4_read_not_found:
  assumes "l4_Id d \<noteq> ''''"
    and "has_status (ReadL4PortSetNSService api (l4_Id d) s) StatusNotFound"
  shows "result_of (resourceL4PortSetNsServiceRead api d s) = ReturnNil"
    and "data_of (resourceL4PortSetNsServiceRead api d s) = d\<lparr>l4_Id := ''''\<rparr>"
  using assms
  by (auto simp add: resourceL4PortSetNsServiceRead_def result_of_def data_of_def Let_def
      split: prod.splits option.splits dest: has_statusD)

lemma nat_read_not_found:
  assumes "nat_Id d \<noteq> ''''" and "nat_logical_router_id d \<noteq> ''''"
    and "has_status (GetNatRule api (nat_logical_router_id d) (nat_Id d) s) StatusNotFound"
  shows "result_of (resourceNsxtNatRuleRead api d s) = ReturnNil"
    and "data_of (resourceNsxtNatRuleRead api d s) = d\<lparr>nat_Id := ''''\<rparr>"
  using assms
  by (auto simp add: resourceNsxtNatRuleRead_def result_of_def data_of_def Let_def
      split: prod.splits option.splits dest: has_statusD)

lemma fw_read_not_found:
  assumes "fw_Id d \<noteq> ''''"
    and "has_status (GetSectionWithRulesListWithRules api (fw_Id d) s) StatusNotFound"
  shows "result_of (resourceNsxtFirewallSectionRead api d s) = ReturnNil"
    and "data_of (resourceNsxtFirewallSectionRead api d s) = d\<lparr>fw_Id := ''''\<rparr>"
  using assms
  by (auto simp add: resourceNsxtFirewallSectionRead_def result_of_def data_of_def Let_def
      split: prod.splits option.splits dest: has_statusD)

text \<open>An error that comes with a response whose status is not 404 is returned, and the
  identifier stays.\<close>

lemma l4_read_error_with_response:
  assumes "l4_Id d \<noteq> ''''"
    and "ReadL4PortSetNSService api (l4_Id d) s = ((obj, Some r, Some e), s')"
    and "StatusCode r \<noteq> StatusNotFound"
  shows "error_with_context e (result_of (resourceL4PortSetNsServiceRead api d s))"
    and "data_of (resourceL4PortSetNsServiceRead api d s) = d"
  using assms
  by (simp_all add: resourceL4PortSetNsServiceRead_def result_of_def data_of_def Let_def)

lemma nat_read_error_with_response:
  assumes "nat_Id d \<noteq> ''''" and "nat_logical_router_id d \<noteq> ''''"
    and "GetNatRule api (nat_logical_router_id d) (nat_Id d) s = ((obj, Some r, Some e), s')"
    and "StatusCode r \<noteq> StatusNotFound"
  shows "error_with_context e (result_of (resourceNsxtNatRuleRead api d s))"
    and "data_of (resourceNsxtNatRuleRead api d s) = d"
  using assms
  by (simp_all add: resourceNsxtNatRuleRead_def result_of_def data_of_def Let_def)

lemma fw_read_error_with_response:
  assumes "fw_Id d \<noteq> ''''"
    and "GetSectionWithRulesListWithRules api (fw_Id d) s = ((obj, Some r, Some e), s')"
    and "StatusCode r \<noteq> StatusNotFound"
  shows "error_with_context e (result_of (resourceNsxtFirewallSectionRead api d s))"
    and "data_of (resourceNsxtFirewallSectionRead api d s) = d"
  using assms
  by (simp_all add: resourceNsxtFirewallSectionRead_def result_of_def data_of_def Let_def)

text \<open>Without a response, the Read handlers come to no return at all, whatever the
  error is.\<close>

lemma l4_read_no_response:
  assumes "l4_Id d \<noteq> ''''"
    and "response_of (ReadL4PortSetNSService api (l4_Id d) s) = None"
  shows "result_of (resourceL4PortSetNsServiceRead api d s) = NilPointerPanic"
  using assms
  by (auto simp add: resourceL4PortSetNsServiceRead_def result_of_def Let_def
      split: prod.splits option.splits dest: response_ofD)

lemma nat_read_no_response:
  assumes "nat_Id d \<noteq> ''''" and "nat_logical_router_id d \<noteq> ''''"
    and "response_of (GetNatRule api (nat_logical_router_id d) (nat_Id d) s) = None"
  shows "result_of (resourceNsxtNatRuleRead api d s) = NilPointerPanic"
  using assms
  by (auto simp add: resourceNsxtNatRuleRead_def result_of_def Let_def
      split: prod.splits option.splits dest: response_ofD)

lemma fw_read_no_response:
  assumes "fw_Id d \<noteq> ''''"
    and "response_of (GetSectionWithRulesListWithRules api (fw_Id d) s) = None"
  shows "result_of (resourceNsxtFirewallSectionRead api d s) = NilPointerPanic"
  using assms
  by (auto simp add: resourceNsxtFirewallSectionRead_def result_of_def Let_def
      split: prod.splits option.splits dest: response_ofD)

text \<open>
  C2.  The first half of the claim holds: a 404 response to the Get of a Read handler
  clears the identifier and the handler returns \<^verbatim>\<open>nil\<close> (\<open>l4_read_not_found\<close>,
  \<open>nat_read_not_found\<close>, \<open>fw_read_not_found\<close>).  The second half asks that any other
  error of the API call makes the handler return an error.  It does when the error comes
  with a response (\<open>l4_read_error_with_response\<close> and the like).  An error of the
  transport comes without one, and there the three Read handlers return no error: they
  read the status through the \<^verbatim>\<open>nil\<close> response and panic.
\<close>

theorem read_error_without_response_not_returned:
  "\<not> is_error (result_of (resourceL4PortSetNsServiceRead
      (fixed_reply None (Some ''connection refused'')) example_service ())) \<and>
   \<not> is_error (result_of (resourceNsxtNatRuleRead
      (fixed_reply None (Some ''connection refused'')) example_nat_rule ())) \<and>
   \<not> is_error (result_of (resourceNsxtFirewallSectionRead
      (fixed_reply None (Some ''connection refused'')) example_section ()))"
  by (simp add: resourceL4PortSetNsServiceRead_def resourceNsxtNatRuleRead_def
      resourceNsxtFirewallSectionRead_def fixed_reply_def example_service_def
      example_nat_rule_def example_section_def result_of_def Let_def)

section \<open>Failures of the transport\<close>

lemma l4_create_failure:
  assumes "\<forall>obj. err_of (CreateL4PortSetNSService api obj s) = Some e"
  shows "error_with_context e (result_of (resourceL4PortSetNsServiceCreate api d s))"
  using assms
  by (simp add: resourceL4PortSetNsServiceCreate_def result_of_def Let_def
      err_of_def case_prod_beta)

lemma l4_update_failure:
  assumes "l4_Id d \<noteq> ''''"
    and "\<forall>obj. err_of (UpdateL4PortSetNSService api (l4_Id d) obj s) = Some e"
  shows "error_with_context e (result_of (resourceL4PortSetNsServiceUpdate api d s))"
  using assms
  by (simp add: resourceL4PortSetNsServiceUpdate_def result_of_def Let_def
      err_of_def case_prod_beta)

lemma nat_create_failure:
  assumes "nat_logical_router_id d \<noteq> ''''"
    and "\<forall>obj. err_of (AddNatRule api (nat_logical_router_id d) obj s) = Some e"
  shows "error_with_context e (result_of (resourceNsxtNatRuleCreate api d s))"
  using assms
  by (simp add: resourceNsxtNatRuleCreate_def result_of_def Let_def
      err_of_def case_prod_beta)

lemma nat_update_failure:
  assumes "nat_Id d \<noteq> ''''" and "nat_logical_router_id d \<noteq> ''''"
    and "\<forall>obj. err_of (UpdateNatRule api (nat_logical_router_id d) (nat_Id d) obj s) = Some e"
  shows "error_with_context e (result_of (resourceNsxtNatRuleUpdate api d s))"
  using assms
  by (simp add: resourceNsxtNatRuleUpdate_def result_of_def Let_def
      err_of_def case_prod_beta)

lemma fw_create_failure:
  assumes "\<forall>obj. err_of (AddSection api obj [] s) = Some e"
    and "\<forall>obj. err_of (AddSectionWithRulesCreateWithRules api obj [] s) = Some e"
  shows "error_with_context e (result_of (resourceNsxtFirewallSectionCreate api d s))"
  using assms
  by (simp add: resourceNsxtFirewallSectionCreate_def
      resourceNsxtFirewallSectionCreateEmpty_def result_of_def Let_def
      err_of_def case_prod_beta)

lemma fw_update_failure:
  assumes "fw_Id d \<noteq> ''''"
    and "\<forall>obj. err_of (UpdateSection api (fw_Id d) obj s) = Some e"
    and "\<forall>obj. err_of (UpdateSectionWithRulesUpdateWithRules api (fw_Id d) obj s) = Some e"
  shows "error_with_context e (result_of (resourceNsxtFirewallSectionUpdate api d s))"
  using assms
  by (simp add: resourceNsxtFirewallSectionUpdate_def
      resourceNsxtFirewallSectionUpdateEmpty_def result_of_def Let_def
      err_of_def case_prod_beta)

text \<open>
  C5.  An error of the API call makes the Create, Update and Delete handlers return an
  error that carries it, whether a response came or not (\<open>l4_create_failure\<close>,
  \<open>l4_update_failure\<close>, \<open>l4_delete_failure\<close> and the like for the other two
  resources): they look at the error first.  The three Read handlers look at the status
  of the response first: run against a transport that fails, with the error
  "connection refused" and no response, each of them ends in the panic of a \<^verbatim>\<open>nil\<close>
  pointer, with the record and the remote state as they were.
\<close>

theorem read_status_before_response_exists:
  "resourceL4PortSetNsServiceRead (fixed_reply None (Some ''connection refused''))
      example_service () = (NilPointerPanic, example_service, ()) \<and>
   resourceNsxtNatRuleRead (fixed_reply None (Some ''connection refused''))
      example_nat_rule () = (NilPointerPanic, example_nat_rule, ()) \<and>
   resourceNsxtFirewallSectionRead (fixed_reply None (Some ''connection refused''))
      example_section () = (NilPointerPanic, example_section, ())"
  by (simp add: resourceL4PortSetNsServiceRead_def resourceNsxtNatRuleRead_def
      resourceNsxtFirewallSectionRead_def fixed_reply_def example_service_def
      example_nat_rule_def example_section_def Let_def)

section \<open>The calls of each handler\<close>

lemma logged_sel:
  "CreateL4PortSetNSService (logged api) =
     (\<lambda>obj. record_call (Call_CreateL4PortSetNSService obj) (CreateL4PortSetNSService api obj))"
  "ReadL4PortSetNSService (logged api) =
     (\<lambda>i. record_call (Call_ReadL4PortSetNSService i) (ReadL4PortSetNSService api i))"
  "UpdateL4PortSetNSService (logged api) =
     (\<lambda>i obj. record_call (Call_UpdateL4PortSetNSService i obj)
        (UpdateL4PortSetNSService api i obj))"
  "DeleteNSService (logged api) =
     (\<lambda>i opts. record_call (Call_DeleteNSService i opts) (DeleteNSService api i opts))"
  "AddNatRule (logged api) = (\<lambda>lr obj. record_call (Call_AddNatRule lr obj) (AddNatRule api lr obj))"
  "GetNatRule (logged api) = (\<lambda>lr i. record_call (Call_GetNatRule lr i) (GetNatRule api lr i))"
  "UpdateNatRule (logged api) =
     (\<lambda>lr i obj. record_call (Call_UpdateNatRule lr i obj) (UpdateNatRule api lr i obj))"
  "DeleteNatRule (logged api) =
     (\<lambda>lr i. record_call (Call_DeleteNatRule lr i) (DeleteNatRule api lr i))"
  "AddSection (logged api) =
     (\<lambda>obj opts. record_call (Call_AddSection obj opts) (AddSection api obj opts))"
  "AddSectionWithRulesCreateWithRules (logged api) =
     (\<lambda>obj opts. record_call (Call_AddSectionWithRulesCreateWithRules obj opts)
        (AddSectionWithRulesCreateWithRules api obj opts))"
  "GetSectionWithRulesListWithRules (logged api) =
     (\<lambda>i. record_call (Call_GetSectionWithRulesListWithRules i)
        (GetSectionWithRulesListWithRules api i))"
  "GetSection (logged api) = (\<lambda>i. record_call (Call_GetSection i) (GetSection api i))"
  "UpdateSection (logged api) =
     (\<lambda>i obj. record_call (Call_UpdateSection i obj) (UpdateSection api i obj))"
  "UpdateSectionWithRulesUpdateWithRules (logged api) =
     (\<lambda>i obj. record_call (Call_UpdateSectionWithRulesUpdateWithRules i obj)
        (UpdateSectionWithRulesUpdateWithRules api i obj))"
  "DeleteRule (logged api) = (\<lambda>i r. record_call (Call_DeleteRule i r) (DeleteRule api i r))"
  "DeleteSection (logged api) =
     (\<lambda>i opts. record_call (Call_DeleteSection i opts) (DeleteSection api i opts))"
  by (simp_all add: logged_def)

lemma calls_of_tuple: "calls_of (r, d, s, l) = l"
  by (simp add: calls_of_def)

lemmas run_simps = logged_sel record_call_def calls_of_tuple Let_def case_prod_beta
  answered_def found_def err_of_def response_of_def has_status_def payload_of_def

lemma l4_read_calls:
  "calls_of (resourceL4PortSetNsServiceRead (logged api) d (s, l)) =
     l @ (if l4_Id d = '''' then [] else [Call_ReadL4PortSetNSService (l4_Id d)])"
  by (simp add: resourceL4PortSetNsServiceRead_def run_simps split: option.splits)

lemma nat_read_calls:
  "calls_of (resourceNsxtNatRuleRead (logged api) d (s, l)) =
     l @ (if nat_Id d = '''' \<or> nat_logical_router_id d = '''' then []
          else [Call_GetNatRule (nat_logical_router_id d) (nat_Id d)])"
  by (simp add: resourceNsxtNatRuleRead_def run_simps split: option.splits)

lemma fw_read_calls:
  "calls_of (resourceNsxtFirewallSectionRead (logged api) d (s, l)) =
     l @ (if fw_Id d = '''' then []
          else Call_GetSectionWithRulesListWithRules (fw_Id d) #
            (if found (GetSectionWithRulesListWithRules api (fw_Id d) s)
             then [Call_GetSection (fw_Id d)] else []))"
  by (auto simp add: resourceNsxtFirewallSectionRead_def run_simps split: option.splits)

lemma l4_read_calls_append:
  "calls_of (resourceL4PortSetNsServiceRead (logged api) d (s, l)) =
     l @ calls_of (resourceL4PortSetNsServiceRead (logged api) d (s, []))"
  by (simp add: l4_read_calls)

lemma nat_read_calls_append:
  "calls_of (resourceNsxtNatRuleRead (logged api) d (s, l)) =
     l @ calls_of (resourceNsxtNatRuleRead (logged api) d (s, []))"
  by (simp add: nat_read_calls)

lemma fw_read_calls_append:
  "calls_of (resourceNsxtFirewallSectionRead (logged api) d (s, l)) =
     l @ calls_of (resourceNsxtFirewallSectionRead (logged api) d (s, []))"
  by (simp add: fw_read_calls)

lemma l4_delete_calls:
  "l4_Id d \<noteq> '''' \<Longrightarrow>
   calls_of (resourceL4PortSetNsServiceDelete (logged api) d (s, [])) =
     [Call_DeleteNSService (l4_Id d) []]"
  by (simp add: resourceL4PortSetNsServiceDelete_def run_simps split: option.splits)

lemma nat_delete_calls:
  "nat_Id d \<noteq> '''' \<Longrightarrow> nat_logical_router_id d \<noteq> '''' \<Longrightarrow>
   calls_of (resourceNsxtNatRuleDelete (logged api) d (s, [])) =
     [Call_DeleteNatRule (nat_logical_router_id d) (nat_Id d)]"
  by (simp add: resourceNsxtNatRuleDelete_def run_simps split: option.splits)

lemma fw_delete_calls:
  "fw_Id d \<noteq> '''' \<Longrightarrow>
   calls_of (resourceNsxtFirewallSectionDelete (logged api) d (s, [])) =
     [Call_DeleteSection (fw_Id d) [(''cascade'', True)]]"
  by (simp add: resourceNsxtFirewallSectionDelete_def run_simps split: option.splits)

lemma Interface2StringList_elements [simp]: "fset_of_list (Interface2StringList S) = S"
  by (simp add: Interface2StringList_def)

lemmas obs_simps = logged_sel record_call_def calls_of_tuple Let_def
  answered_def found_def err_of_def response_of_def has_status_def payload_of_def

lemma l4_create_request:
  "\<exists>req.
     calls_of (resourceL4PortSetNsServiceCreate (logged api) d (s, [])) =
       Call_CreateL4PortSetNSService req #
       (if answered (CreateL4PortSetNSService api req s) StatusCreated
        then calls_of (resourceL4PortSetNsServiceRead (logged api)
               (d\<lparr>l4_Id := NsService_Id (L4_NsService
                  (payload_of (CreateL4PortSetNSService api req s)))\<rparr>)
               (snd (CreateL4PortSetNSService api req s), []))
        else []) \<and>
     service_fields_submitted d req \<and>
     NsService_Revision (L4_NsService req) = 0"
proof -
  let ?req = "\<lparr>
    L4_NsService = \<lparr>NsService_Id = '''', NsService_Revision = 0, NsService_SystemOwned = False,
      NsService_Description = l4_description d, NsService_DisplayName = l4_display_name d,
      NsService_Tags = GetTagsFromSchema d, NsService_DefaultService = l4_default_service d\<rparr>,
    L4_NsserviceElement = \<lparr>Entry_ResourceType = ''L4PortSetNSService'',
      Entry_L4Protocol = l4_l4_protocol d,
      Entry_DestinationPorts = Interface2StringList (l4_destination_ports d),
      Entry_SourcePorts = Interface2StringList (l4_source_ports d)\<rparr>\<rparr>"
  let ?res = "CreateL4PortSetNSService api ?req s"
  obtain p resp err s' where c: "?res = ((p, resp, err), s')"
    by (cases ?res) auto
  have "calls_of (resourceL4PortSetNsServiceCreate (logged api) d (s, [])) =
       Call_CreateL4PortSetNSService ?req #
       (if answered ?res StatusCreated
        then calls_of (resourceL4PortSetNsServiceRead (logged api)
               (d\<lparr>l4_Id := NsService_Id (L4_NsService (payload_of ?res))\<rparr>) (snd ?res, []))
        else [])"
    by (simp add: resourceL4PortSetNsServiceCreate_def obs_simps c l4_read_calls
        split: option.splits)
  moreover have "service_fields_submitted d ?req"
    by (simp add: service_fields_submitted_def GetTagsFromSchema_def)
  ultimately show ?thesis
    by (intro exI [of _ ?req]) simp
qed

lemma nat_create_request:
  assumes "nat_logical_router_id d \<noteq> ''''"
  shows "\<exists>req.
     calls_of (resourceNsxtNatRuleCreate (logged api) d (s, [])) =
       Call_AddNatRule (nat_logical_router_id d) req #
       (if answered (AddNatRule api (nat_logical_router_id d) req s) StatusCreated
        then calls_of (resourceNsxtNatRuleRead (logged api)
               (d\<lparr>nat_Id := NatRule_Id
                  (payload_of (AddNatRule api (nat_logical_router_id d) req s))\<rparr>)
               (snd (AddNatRule api (nat_logical_router_id d) req s), []))
        else []) \<and>
     nat_fields_submitted d req \<and>
     NatRule_Revision req = 0"
proof -
  let ?lr = "nat_logical_router_id d"
  let ?req = "\<lparr>NatRule_Id = '''', NatRule_Revision = 0,
    NatRule_Description = nat_description d, NatRule_DisplayName = nat_display_name d,
    NatRule_Tags = getTagsFromSchema_nat d, NatRule_Action = nat_action d,
    NatRule_Enabled = nat_enabled d, NatRule_Logging = nat_logging d,
    NatRule_LogicalRouterId = nat_logical_router_id d,
    NatRule_MatchDestinationNetwork = nat_match_destination_network d,
    NatRule_MatchSourceNetwork = nat_match_source_network d,
    NatRule_NatPass = nat_nat_pass d, NatRule_RulePriority = nat_rule_priority d,
    NatRule_TranslatedNetwork = nat_translated_network d,
    NatRule_TranslatedPorts = nat_translated_ports d\<rparr>"
  let ?res = "AddNatRule api ?lr ?req s"
  obtain p resp err s' where c: "?res = ((p, resp, err), s')"
    by (cases ?res) auto
  have "calls_of (resourceNsxtNatRuleCreate (logged api) d (s, [])) =
       Call_AddNatRule ?lr ?req #
       (if answered ?res StatusCreated
        then calls_of (resourceNsxtNatRuleRead (logged api)
               (d\<lparr>nat_Id := NatRule_Id (payload_of ?res)\<rparr>) (snd ?res, []))
        else [])"
    using assms
    by (simp add: resourceNsxtNatRuleCreate_def obs_simps c nat_read_calls
        split: option.splits)
  moreover have "nat_fields_submitted d ?req"
    by (simp add: nat_fields_submitted_def getTagsFromSchema_nat_def)
  ultimately show ?thesis
    by (intro exI [of _ ?req]) simp
qed

lemma l4_update_request:
  assumes "l4_Id d \<noteq> ''''"
  shows "\<exists>req.
     calls_of (resourceL4PortSetNsServiceUpdate (logged api) d (s, [])) =
       Call_UpdateL4PortSetNSService (l4_Id d) req #
       (if found (UpdateL4PortSetNSService api (l4_Id d) req s)
        then calls_of (resourceL4PortSetNsServiceRead (logged api) d
               (snd (UpdateL4PortSetNSService api (l4_Id d) req s), []))
        else []) \<and>
     service_fields_submitted d req \<and>
     NsService_Revision (L4_NsService req) = l4_revision d"
proof -
  let ?req = "\<lparr>
    L4_NsService = \<lparr>NsService_Id = '''', NsService_Revision = l4_revision d,
      NsService_SystemOwned = False,
      NsService_Description = l4_description d, NsService_DisplayName = l4_display_name d,
      NsService_Tags = GetTagsFromSchema d, NsService_DefaultService = l4_default_service d\<rparr>,
    L4_NsserviceElement = \<lparr>Entry_ResourceType = ''L4PortSetNSService'',
      Entry_L4Protocol = l4_l4_protocol d,
      Entry_DestinationPorts = Interface2StringList (l4_destination_ports d),
      Entry_SourcePorts = Interface2StringList (l4_source_ports d)\<rparr>\<rparr>"
  let ?res = "UpdateL4PortSetNSService api (l4_Id d) ?req s"
  obtain p resp err s' where c: "?res = ((p, resp, err), s')"
    by (cases ?res) auto
  have "calls_of (resourceL4PortSetNsServiceUpdate (logged api) d (s, [])) =
       Call_UpdateL4PortSetNSService (l4_Id d) ?req #
       (if found ?res
        then calls_of (resourceL4PortSetNsServiceRead (logged api) d (snd ?res, []))
        else [])"
    using assms
    by (auto simp add: resourceL4PortSetNsServiceUpdate_def obs_simps c l4_read_calls
        split: option.splits)
  moreover have "service_fields_submitted d ?req"
    by (simp add: service_fields_submitted_def GetTagsFromSchema_def)
  ultimately show ?thesis
    by (intro exI [of _ ?req]) simp
qed

lemma nat_update_request:
  assumes "nat_Id d \<noteq> ''''" and "nat_logical_router_id d \<noteq> ''''"
  shows "\<exists>req.
     calls_of (resourceNsxtNatRuleUpdate (logged api) d (s, [])) =
       Call_UpdateNatRule (nat_logical_router_id d) (nat_Id d) req #
       (if found (UpdateNatRule api (nat_logical_router_id d) (nat_Id d) req s)
        then calls_of (resourceNsxtNatRuleRead (logged api) d
               (snd (UpdateNatRule api (nat_logical_router_id d) (nat_Id d) req s), []))
        else []) \<and>
     nat_fields_submitted d req \<and>
     NatRule_Revision req = nat_revision d"
proof -
  let ?lr = "nat_logical_router_id d"
  let ?req = "\<lparr>NatRule_Id = '''', NatRule_Revision = nat_revision d,
    NatRule_Description = nat_description d, NatRule_DisplayName = nat_display_name d,
    NatRule_Tags = getTagsFromSchema_nat d, NatRule_Action = nat_action d,
    NatRule_Enabled = nat_enabled d, NatRule_Logging = nat_logging d,
    NatRule_LogicalRouterId = nat_logical_router_id d,
    NatRule_MatchDestinationNetwork = nat_match_destination_network d,
    NatRule_MatchSourceNetwork = nat_match_source_network d,
    NatRule_NatPass = nat_nat_pass d, NatRule_RulePriority = nat_rule_priority d,
    NatRule_TranslatedNetwork = nat_translated_network d,
    NatRule_TranslatedPorts = nat_translated_ports d\<rparr>"
  let ?res = "UpdateNatRule api ?lr (nat_Id d) ?req s"
  obtain p resp err s' where c: "?res = ((p, resp, err), s')"
    by (cases ?res) auto
  have "calls_of (resourceNsxtNatRuleUpdate (logged api) d (s, [])) =
       Call_UpdateNatRule ?lr (nat_Id d) ?req #
       (if found ?res
        then calls_of (resourceNsxtNatRuleRead (logged api) d (snd ?res, []))
        else [])"
    using assms
    by (auto simp add: resourceNsxtNatRuleUpdate_def obs_simps c nat_read_calls
        split: option.splits)
  moreover have "nat_fields_submitted d ?req"
    by (simp add: nat_fields_submitted_def getTagsFromSchema_nat_def)
  ultimately show ?thesis
    by (intro exI [of _ ?req]) simp
qed

lemma services_submitted: "list_all2 service_submitted es (getServicesResourceReferences es)"
  by (simp add: getServicesResourceReferences_def list_all2_map2 list_all2_same
      service_submitted_def)

lemma rules_round_trip: "rules_submitted d (getRulesFromSchema d)"
  by (simp add: rules_submitted_def getRulesFromSchema_def list_all2_map2 list_all2_same
      rule_fields_submitted_def services_submitted getResourceReferences_def)

lemma no_rules:
  "(length (getRulesFromSchema d) = 0) = (fw_rule d = [])"
  "(getRulesFromSchema d = []) = (fw_rule d = [])"
  by (simp_all add: getRulesFromSchema_def)

lemma fw_update_request:
  assumes "fw_Id d \<noteq> ''''" and "fw_rule d \<noteq> []"
  shows "\<exists>req.
     calls_of (resourceNsxtFirewallSectionUpdate (logged api) d (s, [])) =
       Call_UpdateSectionWithRulesUpdateWithRules (fw_Id d) req #
       (if found (UpdateSectionWithRulesUpdateWithRules api (fw_Id d) req s)
        then calls_of (resourceNsxtFirewallSectionRead (logged api) d
               (snd (UpdateSectionWithRulesUpdateWithRules api (fw_Id d) req s), []))
        else []) \<and>
     section_fields_submitted d (section_of req) \<and>
     rules_submitted d (SectionRL_Rules req) \<and>
     SectionRL_Revision req = fw_revision d"
proof -
  let ?req = "\<lparr>SectionRL_Id = '''', SectionRL_Revision = fw_revision d,
    SectionRL_Description = fw_description d, SectionRL_DisplayName = fw_display_name d,
    SectionRL_Tags = getTagsFromSchema_fw d,
    SectionRL_AppliedTos = getResourceReferencesFromSchemaSet_applied_to d,
    SectionRL_IsDefault = fw_is_default d, SectionRL_SectionType = fw_section_type d,
    SectionRL_Stateful = fw_stateful d, SectionRL_Rules = getRulesFromSchema d\<rparr>"
  let ?res = "UpdateSectionWithRulesUpdateWithRules api (fw_Id d) ?req s"
  obtain p resp err s' where c: "?res = ((p, resp, err), s')"
    by (cases ?res) auto
  have "calls_of (resourceNsxtFirewallSectionUpdate (logged api) d (s, [])) =
       Call_UpdateSectionWithRulesUpdateWithRules (fw_Id d) ?req #
       (if found ?res
        then calls_of (resourceNsxtFirewallSectionRead (logged api) d (snd ?res, []))
        else [])"
    using assms
    by (auto simp add: resourceNsxtFirewallSectionUpdate_def obs_simps c no_rules fw_read_calls
        split: option.splits)
  moreover have "section_fields_submitted d (section_of ?req)"
    by (simp add: section_fields_submitted_def section_of_def getTagsFromSchema_fw_def
        getResourceReferencesFromSchemaSet_applied_to_def)
  moreover have "rules_submitted d (SectionRL_Rules ?req)"
    by (simp add: rules_round_trip)
  ultimately show ?thesis
    by (intro exI [of _ ?req]) simp
qed

lemma fw_create_request:
  assumes "fw_rule d \<noteq> []"
  shows "\<exists>req.
     calls_of (resourceNsxtFirewallSectionCreate (logged api) d (s, [])) =
       Call_AddSectionWithRulesCreateWithRules req [] #
       (if answered (AddSectionWithRulesCreateWithRules api req [] s) StatusCreated
        then calls_of (resourceNsxtFirewallSectionRead (logged api)
               (d\<lparr>fw_Id := SectionRL_Id
                  (payload_of (AddSectionWithRulesCreateWithRules api req [] s))\<rparr>)
               (snd (AddSectionWithRulesCreateWithRules api req [] s), []))
        else []) \<and>
     section_fields_submitted d (section_of req) \<and>
     rules_submitted d (SectionRL_Rules req) \<and>
     SectionRL_Revision req = 0"
proof -
  let ?req = "\<lparr>SectionRL_Id = '''', SectionRL_Revision = 0,
    SectionRL_Description = fw_description d, SectionRL_DisplayName = fw_display_name d,
    SectionRL_Tags = getTagsFromSchema_fw d,
    SectionRL_AppliedTos = getResourceReferencesFromSchemaSet_applied_to d,
    SectionRL_IsDefault = fw_is_default d, SectionRL_SectionType = fw_section_type d,
    SectionRL_Stateful = fw_stateful d, SectionRL_Rules = getRulesFromSchema d\<rparr>"
  let ?res = "AddSectionWithRulesCreateWithRules api ?req [] s"
  obtain p resp err s' where c: "?res = ((p, resp, err), s')"
    by (cases ?res) auto
  have "calls_of (resourceNsxtFirewallSectionCreate (logged api) d (s, [])) =
       Call_AddSectionWithRulesCreateWithRules ?req [] #
       (if answered ?res StatusCreated
        then calls_of (resourceNsxtFirewallSectionRead (logged api)
               (d\<lparr>fw_Id := SectionRL_Id (payload_of ?res)\<rparr>) (snd ?res, []))
        else [])"
    using assms
    by (auto simp add: resourceNsxtFirewallSectionCreate_def obs_simps c no_rules fw_read_calls
        split: option.splits)
  moreover have "section_fields_submitted d (section_of ?req)"
    by (simp add: section_fields_submitted_def section_of_def getTagsFromSchema_fw_def
        getResourceReferencesFromSchemaSet_applied_to_def)
  moreover have "rules_submitted d (SectionRL_Rules ?req)"
    by (simp add: rules_round_trip)
  ultimately show ?thesis
    by (intro exI [of _ ?req]) simp
qed

lemma fw_create_empty_request:
  assumes "fw_rule d = []"
  shows "\<exists>req.
     calls_of (resourceNsxtFirewallSectionCreate (logged api) d (s, [])) =
       Call_AddSection req [] #
       (if answered (AddSection api req [] s) StatusCreated
        then calls_of (resourceNsxtFirewallSectionRead (logged api)
               (d\<lparr>fw_Id := Section_Id (payload_of (AddSection api req [] s))\<rparr>)
               (snd (AddSection api req [] s), []))
        else []) \<and>
     section_fields_submitted d req \<and>
     Section_Revision req = 0"
proof -
  let ?req = "\<lparr>Section_Id = '''', Section_Revision = 0,
    Section_Description = fw_description d, Section_DisplayName = fw_display_name d,
    Section_Tags = getTagsFromSchema_fw d,
    Section_AppliedTos = getResourceReferencesFromSchemaSet_applied_to d,
    Section_IsDefault = fw_is_default d, Section_SectionType = fw_section_type d,
    Section_Stateful = fw_stateful d\<rparr>"
  let ?res = "AddSection api ?req [] s"
  obtain p resp err s' where c: "?res = ((p, resp, err), s')"
    by (cases ?res) auto
  have "calls_of (resourceNsxtFirewallSectionCreate (logged api) d (s, [])) =
       Call_AddSection ?req [] #
       (if answered ?res StatusCreated
        then calls_of (resourceNsxtFirewallSectionRead (logged api)
               (d\<lparr>fw_Id := Section_Id (payload_of ?res)\<rparr>) (snd ?res, []))
        else [])"
    using assms
    by (auto simp add: resourceNsxtFirewallSectionCreate_def
        resourceNsxtFirewallSectionCreateEmpty_def obs_simps c no_rules fw_read_calls
        split: option.splits)
  moreover have "section_fields_submitted d ?req"
    by (simp add: section_fields_submitted_def getTagsFromSchema_fw_def
        getResourceReferencesFromSchemaSet_applied_to_def)
  ultimately show ?thesis
    by (intro exI [of _ ?req]) simp
qed

lemma delete_rules_logged:
  "deleteCurrentRules (logged api) i rules (s, l) =
     (deleteCurrentRules api i rules s, l @ map (\<lambda>rule. Call_DeleteRule i (Rule_Id rule)) rules)"
  by (induction rules arbitrary: s l)
    (simp_all add: logged_sel record_call_def split: prod.splits)

lemma fw_update_empty_request:
  "\<exists>req.
     calls_of (resourceNsxtFirewallSectionUpdateEmpty (logged api) d i (s, [])) =
       Call_UpdateSection i req #
       (if found (UpdateSection api i req s)
        then Call_GetSectionWithRulesListWithRules i #
          (if found (GetSectionWithRulesListWithRules api i (snd (UpdateSection api i req s)))
           then map (\<lambda>rule. Call_DeleteRule i (Rule_Id rule))
                  (SectionRL_Rules (payload_of (GetSectionWithRulesListWithRules api i
                     (snd (UpdateSection api i req s))))) @
                calls_of (resourceNsxtFirewallSectionRead (logged api) d
                  (deleteCurrentRules api i
                     (SectionRL_Rules (payload_of (GetSectionWithRulesListWithRules api i
                        (snd (UpdateSection api i req s)))))
                     (snd (GetSectionWithRulesListWithRules api i
                        (snd (UpdateSection api i req s)))), []))
           else [])
        else []) \<and>
     section_fields_submitted d req \<and>
     Section_Revision req = fw_revision d"
proof -
  let ?req = "\<lparr>Section_Id = '''', Section_Revision = fw_revision d,
    Section_Description = fw_description d, Section_DisplayName = fw_display_name d,
    Section_Tags = getTagsFromSchema_fw d,
    Section_AppliedTos = getResourceReferencesFromSchemaSet_applied_to d,
    Section_IsDefault = fw_is_default d, Section_SectionType = fw_section_type d,
    Section_Stateful = fw_stateful d\<rparr>"
  let ?u = "UpdateSection api i ?req s"
  obtain p resp err s1 where u: "?u = ((p, resp, err), s1)"
    by (cases ?u) auto
  let ?g = "GetSectionWithRulesListWithRules api i s1"
  obtain x resp2 err2 s2 where g: "?g = ((x, resp2, err2), s2)"
    by (cases ?g) auto
  have "calls_of (resourceNsxtFirewallSectionUpdateEmpty (logged api) d i (s, [])) =
       Call_UpdateSection i ?req #
       (if found ?u
        then Call_GetSectionWithRulesListWithRules i #
          (if found (GetSectionWithRulesListWithRules api i (snd ?u))
           then map (\<lambda>rule. Call_DeleteRule i (Rule_Id rule))
                  (SectionRL_Rules (payload_of (GetSectionWithRulesListWithRules api i (snd ?u)))) @
                calls_of (resourceNsxtFirewallSectionRead (logged api) d
                  (deleteCurrentRules api i
                     (SectionRL_Rules (payload_of
                        (GetSectionWithRulesListWithRules api i (snd ?u))))
                     (snd (GetSectionWithRulesListWithRules api i (snd ?u))), []))
           else [])
        else [])"
    by (auto simp add: resourceNsxtFirewallSectionUpdateEmpty_def obs_simps u g
        delete_rules_logged fw_read_calls split: option.splits)
  moreover have "section_fields_submitted d ?req"
    by (simp add: section_fields_submitted_def getTagsFromSchema_fw_def
        getResourceReferencesFromSchemaSet_applied_to_def)
  ultimately show ?thesis
    by (intro exI [of _ ?req]) simp
qed

lemma update_takes_empty_path:
  assumes "fw_Id d \<noteq> ''''" and "fw_rule d = []"
  shows "resourceNsxtFirewallSectionUpdate api d s =
    resourceNsxtFirewallSectionUpdateEmpty api d (fw_Id d) s"
  using assms by (simp add: resourceNsxtFirewallSectionUpdate_def no_rules)


section \<open>How many calls an operation makes\<close>

lemma Interface2StringList_small [simp]:
  "Interface2StringList {||} = []"
  "Interface2StringList {|x|} = [x]"
  by (simp_all add: Interface2StringList_def sorted_list_of_fset.rep_eq)

lemma store_sel:
  "CreateL4PortSetNSService store = store_CreateL4PortSetNSService"
  "ReadL4PortSetNSService store = store_ReadL4PortSetNSService"
  "UpdateL4PortSetNSService store = store_UpdateL4PortSetNSService"
  "DeleteNSService store = store_DeleteNSService"
  "AddNatRule store = store_AddNatRule"
  "GetNatRule store = store_GetNatRule"
  "UpdateNatRule store = store_UpdateNatRule"
  "DeleteNatRule store = store_DeleteNatRule"
  "AddSection store = store_AddSection"
  "AddSectionWithRulesCreateWithRules store = store_AddSectionWithRulesCreateWithRules"
  "GetSectionWithRulesListWithRules store = store_GetSectionWithRulesListWithRules"
  "GetSection store = store_GetSection"
  "UpdateSection store = store_UpdateSection"
  "UpdateSectionWithRulesUpdateWithRules store = store_UpdateSectionWithRulesUpdateWithRules"
  "DeleteRule store = store_DeleteRule"
  "DeleteSection store = store_DeleteSection"
  by (simp_all add: store_def)

text \<open>
  C6, as the claim states it, fails: the Read handler of the firewall section, run on
  the example section against the \<open>store\<close> server that holds it, makes two calls, a
  \<^verbatim>\<open>GetSectionWithRulesListWithRules\<close> and a \<^verbatim>\<open>GetSection\<close>, and returns \<^verbatim>\<open>nil\<close>.
\<close>

theorem firewall_read_makes_two_calls:
  "calls_of (resourceNsxtFirewallSectionRead (logged store) example_section
      (remote_with_rules, [])) =
     [Call_GetSectionWithRulesListWithRules ''sec-1'', Call_GetSection ''sec-1''] \<and>
   length (calls_of (resourceNsxtFirewallSectionRead (logged store) example_section
      (remote_with_rules, []))) \<noteq> 1 \<and>
   result_of (resourceNsxtFirewallSectionRead (logged store) example_section
      (remote_with_rules, [])) = ReturnNil"
  by (simp add: resourceNsxtFirewallSectionRead_def logged_sel record_call_def calls_of_def
      Let_def store_sel store_GetSectionWithRulesListWithRules_def store_GetSection_def
      example_section_def remote_with_rules_def ok_def StatusNotFound_def result_of_def)

text \<open>
  C6, amended.  When the identifiers it needs are not empty, each handler makes the call
  of its own operation exactly once and first, and which calls follow is fixed by what
  the calls return.  Every Delete, and the Read of an L4 port set service and of a NAT
  rule, make no other call.  The Read of a firewall section makes one
  \<^verbatim>\<open>GetSectionWithRulesListWithRules\<close> and, exactly when that call returned no error
  and a response other than 404, one \<^verbatim>\<open>GetSection\<close> after it.  Every Create makes its
  Add call and, exactly when that returned no error and the status 201, the calls of
  Read on the record with the identifier returned.  Every Update makes its Update call
  and, exactly when that returned no error and a response other than 404, the calls of
  Read.  The Update of a firewall section whose local rule list is empty makes the
  \<^verbatim>\<open>UpdateSection\<close> call, after its success a \<^verbatim>\<open>GetSectionWithRulesListWithRules\<close>, and
  after the success of that one \<^verbatim>\<open>DeleteRule\<close> call for each rule returned, followed
  by the calls of Read.  No call is made twice.
\<close>

theorem calls_per_operation:
  "(l4_Id dl \<noteq> '''' \<longrightarrow>
      calls_of (resourceL4PortSetNsServiceRead (logged api) dl (s, [])) =
        [Call_ReadL4PortSetNSService (l4_Id dl)] \<and>
      calls_of (resourceL4PortSetNsServiceDelete (logged api) dl (s, [])) =
        [Call_DeleteNSService (l4_Id dl) []] \<and>
      (\<exists>req. calls_of (resourceL4PortSetNsServiceUpdate (logged api) dl (s, [])) =
          Call_UpdateL4PortSetNSService (l4_Id dl) req #
          (if found (UpdateL4PortSetNSService api (l4_Id dl) req s)
           then calls_of (resourceL4PortSetNsServiceRead (logged api) dl
                  (snd (UpdateL4PortSetNSService api (l4_Id dl) req s), []))
           else []))) \<and>
   (\<exists>req. calls_of (resourceL4PortSetNsServiceCreate (logged api) dl (s, [])) =
       Call_CreateL4PortSetNSService req #
       (if answered (CreateL4PortSetNSService api req s) StatusCreated
        then calls_of (resourceL4PortSetNsServiceRead (logged api)
               (dl\<lparr>l4_Id := NsService_Id (L4_NsService
                  (payload_of (CreateL4PortSetNSService api req s)))\<rparr>)
               (snd (CreateL4PortSetNSService api req s), []))
        else [])) \<and>
   (nat_Id dn \<noteq> '''' \<and> nat_logical_router_id dn \<noteq> '''' \<longrightarrow>
      calls_of (resourceNsxtNatRuleRead (logged api) dn (s, [])) =
        [Call_GetNatRule (nat_logical_router_id dn) (nat_Id dn)] \<and>
      calls_of (resourceNsxtNatRuleDelete (logged api) dn (s, [])) =
        [Call_DeleteNatRule (nat_logical_router_id dn) (nat_Id dn)] \<and>
      (\<exists>req. calls_of (resourceNsxtNatRuleUpdate (logged api) dn (s, [])) =
          Call_UpdateNatRule (nat_logical_router_id dn) (nat_Id dn) req #
          (if found (UpdateNatRule api (nat_logical_router_id dn) (nat_Id dn) req s)
           then calls_of (resourceNsxtNatRuleRead (logged api) dn
                  (snd (UpdateNatRule api (nat_logical_router_id dn) (nat_Id dn) req s), []))
           else []))) \<and>
   (nat_logical_router_id dn \<noteq> '''' \<longrightarrow>
      (\<exists>req. calls_of (resourceNsxtNatRuleCreate (logged api) dn (s, [])) =
          Call_AddNatRule (nat_logical_router_id dn) req #
          (if answered (AddNatRule api (nat_logical_router_id dn) req s) StatusCreated
           then calls_of (resourceNsxtNatRuleRead (logged api)
                  (dn\<lparr>nat_Id := NatRule_Id
                     (payload_of (AddNatRule api (nat_logical_router_id dn) req s))\<rparr>)
                  (snd (AddNatRule api (nat_logical_router_id dn) req s), []))
           else []))) \<and>
   (fw_Id df \<noteq> '''' \<longrightarrow>
      calls_of (resourceNsxtFirewallSectionRead (logged api) df (s, [])) =
        Call_GetSectionWithRulesListWithRules (fw_Id df) #
        (if found (GetSectionWithRulesListWithRules api (fw_Id df) s)
         then [Call_GetSection (fw_Id df)] else []) \<and>
      calls_of (resourceNsxtFirewallSectionDelete (logged api) df (s, [])) =
        [Call_DeleteSection (fw_Id df) [(''cascade'', True)]]) \<and>
   (fw_Id df \<noteq> '''' \<and> fw_rule df \<noteq> [] \<longrightarrow>
      (\<exists>req. calls_of (resourceNsxtFirewallSectionUpdate (logged api) df (s, [])) =
          Call_UpdateSectionWithRulesUpdateWithRules (fw_Id df) req #
          (if found (UpdateSectionWithRulesUpdateWithRules api (fw_Id df) req s)
           then calls_of (resourceNsxtFirewallSectionRead (logged api) df
                  (snd (UpdateSectionWithRulesUpdateWithRules api (fw_Id df) req s), []))
           else []))) \<and>
   (fw_Id df \<noteq> '''' \<and> fw_rule df = [] \<longrightarrow>
      (\<exists>req. calls_of (resourceNsxtFirewallSectionUpdate (logged api) df (s, [])) =
          Call_UpdateSection (fw_Id df) req #
          (if found (UpdateSection api (fw_Id df) req s)
           then Call_GetSectionWithRulesListWithRules (fw_Id df) #
             (if found (GetSectionWithRulesListWithRules api (fw_Id df)
                   (snd (UpdateSection api (fw_Id df) req s)))
              then map (\<lambda>rule. Call_DeleteRule (fw_Id df) (Rule_Id rule))
                     (SectionRL_Rules (payload_of (GetSectionWithRulesListWithRules api (fw_Id df)
                        (snd (UpdateSection api (fw_Id df) req s))))) @
                   calls_of (resourceNsxtFirewallSectionRead (logged api) df
                     (deleteCurrentRules api (fw_Id df)
                        (SectionRL_Rules (payload_of (GetSectionWithRulesListWithRules api
                           (fw_Id df) (snd (UpdateSection api (fw_Id df) req s)))))
                        (snd (GetSectionWithRulesListWithRules api (fw_Id df)
                           (snd (UpdateSection api (fw_Id df) req s)))), []))
              else [])
           else []))) \<and>
   (fw_rule df \<noteq> [] \<longrightarrow>
      (\<exists>req. calls_of (resourceNsxtFirewallSectionCreate (logged api) df (s, [])) =
          Call_AddSectionWithRulesCreateWithRules req [] #
          (if answered (AddSectionWithRulesCreateWithRules api req [] s) StatusCreated
           then calls_of (resourceNsxtFirewallSectionRead (logged api)
                  (df\<lparr>fw_Id := SectionRL_Id
                     (payload_of (AddSectionWithRulesCreateWithRules api req [] s))\<rparr>)
                  (snd (AddSectionWithRulesCreateWithRules api req [] s), []))
           else []))) \<and>
   (fw_rule df = [] \<longrightarrow>
      (\<exists>req. calls_of (resourceNsxtFirewallSectionCreate (logged api) df (s, [])) =
          Call_AddSection req [] #
          (if answered (AddSection api req [] s) StatusCreated
           then calls_of (resourceNsxtFirewallSectionRead (logged api)
                  (df\<lparr>fw_Id := Section_Id (payload_of (AddSection api req [] s))\<rparr>)
                  (snd (AddSection api req [] s), []))
           else [])))"
proof -
  have l4: "l4_Id dl \<noteq> '''' \<longrightarrow>
      calls_of (resourceL4PortSetNsServiceRead (logged api) dl (s, [])) =
        [Call_ReadL4PortSetNSService (l4_Id dl)] \<and>
      calls_of (resourceL4PortSetNsServiceDelete (logged api) dl (s, [])) =
        [Call_DeleteNSService (l4_Id dl) []]"
    by (simp add: l4_read_calls l4_delete_calls)
  have nat: "nat_Id dn \<noteq> '''' \<and> nat_logical_router_id dn \<noteq> '''' \<longrightarrow>
      calls_of (resourceNsxtNatRuleRead (logged api) dn (s, [])) =
        [Call_GetNatRule (nat_logical_router_id dn) (nat_Id dn)] \<and>
      calls_of (resourceNsxtNatRuleDelete (logged api) dn (s, [])) =
        [Call_DeleteNatRule (nat_logical_router_id dn) (nat_Id dn)]"
    by (simp add: nat_read_calls nat_delete_calls)
  have fw: "fw_Id df \<noteq> '''' \<longrightarrow>
      calls_of (resourceNsxtFirewallSectionRead (logged api) df (s, [])) =
        Call_GetSectionWithRulesListWithRules (fw_Id df) #
        (if found (GetSectionWithRulesListWithRules api (fw_Id df) s)
         then [Call_GetSection (fw_Id df)] else []) \<and>
      calls_of (resourceNsxtFirewallSectionDelete (logged api) df (s, [])) =
        [Call_DeleteSection (fw_Id df) [(''cascade'', True)]]"
    by (simp add: fw_read_calls fw_delete_calls)
  have empty: "\<exists>req. calls_of (resourceNsxtFirewallSectionUpdate (logged api) df (s, [])) =
          Call_UpdateSection (fw_Id df) req #
          (if found (UpdateSection api (fw_Id df) req s)
           then Call_GetSectionWithRulesListWithRules (fw_Id df) #
             (if found (GetSectionWithRulesListWithRules api (fw_Id df)
                   (snd (UpdateSection api (fw_Id df) req s)))
              then map (\<lambda>rule. Call_DeleteRule (fw_Id df) (Rule_Id rule))
                     (SectionRL_Rules (payload_of (GetSectionWithRulesListWithRules api (fw_Id df)
                        (snd (UpdateSection api (fw_Id df) req s))))) @
                   calls_of (resourceNsxtFirewallSectionRead (logged api) df
                     (deleteCurrentRules api (fw_Id df)
                        (SectionRL_Rules (payload_of (GetSectionWithRulesListWithRules api
                           (fw_Id df) (snd (UpdateSection api (fw_Id df) req s)))))
                        (snd (GetSectionWithRulesListWithRules api (fw_Id df)
                           (snd (UpdateSection api (fw_Id df) req s)))), []))
              else [])
           else [])"
    if "fw_Id df \<noteq> '''' \<and> fw_rule df = []"
  proof -
    from that have "resourceNsxtFirewallSectionUpdate (logged api) df (s, []) =
        resourceNsxtFirewallSectionUpdateEmpty (logged api) df (fw_Id df) (s, [])"
      by (simp add: update_takes_empty_path)
    with fw_update_empty_request [of api df "fw_Id df" s] show ?thesis
      by (simp only:) blast
  qed
  show ?thesis
    using l4 nat fw empty
      l4_update_request [of dl api s] l4_create_request [of api dl s]
      nat_update_request [of dn api s] nat_create_request [of dn api s]
      fw_update_request [of df api s] fw_create_request [of df api s]
      fw_create_empty_request [of df api s]
    by (intro conjI impI) blast+
qed

theorem calls_per_operation_witness:
  "l4_Id example_service \<noteq> '''' \<and>
   nat_Id example_nat_rule \<noteq> '''' \<and> nat_logical_router_id example_nat_rule \<noteq> '''' \<and>
   fw_Id example_section \<noteq> '''' \<and> fw_rule example_section \<noteq> [] \<and>
   fw_Id emptied_section \<noteq> '''' \<and> fw_rule emptied_section = [] \<and>
   calls_of (resourceL4PortSetNsServiceRead (logged store) example_service
     (remote_with_rules, [])) = [Call_ReadL4PortSetNSService ''svc-1''] \<and>
   calls_of (resourceL4PortSetNsServiceDelete (logged store) example_service
     (remote_with_rules, [])) = [Call_DeleteNSService ''svc-1'' []] \<and>
   calls_of (resourceNsxtNatRuleRead (logged store) example_nat_rule (remote_with_rules, [])) =
     [Call_GetNatRule ''router-1'' ''nat-1''] \<and>
   calls_of (resourceNsxtNatRuleDelete (logged store) example_nat_rule (remote_with_rules, [])) =
     [Call_DeleteNatRule ''router-1'' ''nat-1''] \<and>
   calls_of (resourceNsxtFirewallSectionDelete (logged store) example_section
     (remote_with_rules, [])) = [Call_DeleteSection ''sec-1'' [(''cascade'', True)]] \<and>
   calls_of (resourceNsxtFirewallSectionRead (logged store) example_section
     (remote_with_rules, [])) =
     Call_GetSectionWithRulesListWithRules ''sec-1'' #
     (if found (GetSectionWithRulesListWithRules store ''sec-1'' remote_with_rules)
      then [Call_GetSection ''sec-1''] else []) \<and>
   (\<exists>req. calls_of (resourceNsxtFirewallSectionUpdate (logged store) example_section
       (remote_with_rules, [])) =
       Call_UpdateSectionWithRulesUpdateWithRules ''sec-1'' req #
       (if found (UpdateSectionWithRulesUpdateWithRules store ''sec-1'' req remote_with_rules)
        then calls_of (resourceNsxtFirewallSectionRead (logged store) example_section
               (snd (UpdateSectionWithRulesUpdateWithRules store ''sec-1'' req
                  remote_with_rules), []))
        else [])) \<and>
   (\<exists>req. calls_of (resourceNsxtNatRuleCreate (logged store) example_nat_rule
       (remote_with_rules, [])) =
       Call_AddNatRule ''router-1'' req #
       (if answered (AddNatRule store ''router-1'' req remote_with_rules) StatusCreated
        then calls_of (resourceNsxtNatRuleRead (logged store)
               (example_nat_rule\<lparr>nat_Id := NatRule_Id
                  (payload_of (AddNatRule store ''router-1'' req remote_with_rules))\<rparr>)
               (snd (AddNatRule store ''router-1'' req remote_with_rules), []))
        else []))"
proof -
  have ids: "l4_Id example_service = ''svc-1''" "nat_Id example_nat_rule = ''nat-1''"
    "nat_logical_router_id example_nat_rule = ''router-1''" "fw_Id example_section = ''sec-1''"
    "fw_rule example_section \<noteq> []" "fw_rule emptied_section = []"
    "fw_Id emptied_section = ''sec-1''"
    by (simp_all add: example_service_def example_nat_rule_def example_section_def
        emptied_section_def)
  note t = calls_per_operation [where api = store and s = remote_with_rules
      and dl = example_service and dn = example_nat_rule]
  from t [where df = example_section]
  show ?thesis
    by (simp add: ids cong: if_cong)
qed


section \<open>What the requests carry\<close>




end
